theory Spec2Isabelle
  imports Complex_Main "HOL-Library.Sublist"
begin

section \<open>JavaScript values and strings\<close>

text \<open>
  The gateway \<open>runWithAuthRetry\<close> inspects a caught failure with the string methods
  \<open>indexOf\<close>, \<open>lastIndexOf\<close>, \<open>substring\<close> and \<open>includes\<close>, and with property reads on
  the value that \<open>JSON.parse\<close> returns. Strings are lists of 8-bit characters, which
  covers the ASCII messages and patterns of the module.
\<close>

fun includes_str :: "string \<Rightarrow> string \<Rightarrow> bool" where
  "includes_str [] p = (p = [])"
| "includes_str (c # cs) p = (prefix p (c # cs) \<or> includes_str cs p)"

fun indexOf :: "string \<Rightarrow> string \<Rightarrow> int" where
  "indexOf [] p = (if p = [] then 0 else - 1)"
| "indexOf (c # cs) p =
     (if prefix p (c # cs) then 0
      else let i = indexOf cs p in if i = - 1 then - 1 else i + 1)"

fun lastIndexOf :: "string \<Rightarrow> string \<Rightarrow> int" where
  "lastIndexOf [] p = (if p = [] then 0 else - 1)"
| "lastIndexOf (c # cs) p =
     (let i = lastIndexOf cs p in
      if i \<noteq> - 1 then i + 1 else if prefix p (c # cs) then 0 else - 1)"

definition substring :: "string \<Rightarrow> int \<Rightarrow> int \<Rightarrow> string" where
  \<comment> \<open>\<open>s.substring(start, stop)\<close>: both indices are clamped to the string, and swapped
      when the first is the larger.\<close>
  "substring s start stop =
     (let n = int (length s);
          a = max 0 (min start n);
          b = max 0 (min stop n)
      in take (nat (max a b - min a b)) (drop (nat (min a b)) s))"

datatype jsval =
    JUndefined
  | JNull
  | JBool bool
  | JNum rat
  | JStr string
  | JArr "jsval list"
  | JObj "(string \<times> jsval) list"

text \<open>
  \<open>JNum\<close> carries the value of a finite number. An object keeps its members in source
  order; a later member with the same key overrides an earlier one.
\<close>

fun truthy :: "jsval \<Rightarrow> bool" where
  "truthy JUndefined = False"
| "truthy JNull = False"
| "truthy (JBool b) = b"
| "truthy (JNum r) = (r \<noteq> 0)"
| "truthy (JStr s) = (s \<noteq> [])"
| "truthy (JArr xs) = True"
| "truthy (JObj kvs) = True"

definition nullish :: "jsval \<Rightarrow> bool" where
  "nullish v = (v = JUndefined \<or> v = JNull)"

fun getprop :: "jsval \<Rightarrow> string \<Rightarrow> jsval" where
  \<comment> \<open>\<open>v.k\<close> for a value \<open>v\<close> that is neither \<open>null\<close> nor \<open>undefined\<close>, and for the
      names this module reads (\<open>error\<close>, \<open>code\<close>, \<open>status\<close>, \<open>message\<close>): no prototype
      defines one of them, so only an object's own member is found.\<close>
  "getprop (JObj kvs) k = (case map_of (rev kvs) k of Some v \<Rightarrow> v | None \<Rightarrow> JUndefined)"
| "getprop v k = JUndefined"

fun includes_val :: "jsval \<Rightarrow> string \<Rightarrow> bool option" where
  \<comment> \<open>\<open>v.includes(p)\<close>: \<open>String.prototype.includes\<close> on a string,
      \<open>Array.prototype.includes\<close> on an array; any other value has no callable
      \<open>includes\<close> and the call throws a TypeError (\<open>None\<close>).\<close>
  "includes_val (JStr s) p = Some (includes_str s p)"
| "includes_val (JArr xs) p = Some (JStr p \<in> set xs)"
| "includes_val v p = None"

fun join :: "string \<Rightarrow> string list \<Rightarrow> string" where
  "join sep [] = []"
| "join sep [x] = x"
| "join sep (x # y # ys) = x @ sep @ join sep (y # ys)"

fun all_some :: "'a option list \<Rightarrow> 'a list option" where
  "all_some [] = Some []"
| "all_some (None # xs) = None"
| "all_some (Some x # xs) = map_option ((#) x) (all_some xs)"

fun ToString :: "(rat \<Rightarrow> string) \<Rightarrow> jsval \<Rightarrow> string option" where
  \<comment> \<open>The string conversion that \<open>new Error(v)\<close> applies to its argument; \<open>None\<close> when
      it throws a TypeError. An object is converted by its \<open>toString\<close>: the one of
      \<open>Object.prototype\<close> gives \<open>[object Object]\<close>, but an own member \<open>toString\<close> of a
      parsed object hides it and is not callable, and then no conversion exists
      (\<open>valueOf\<close> returns the object itself or is hidden the same way). An array joins the
      conversions of its elements, the empty text for \<open>null\<close> and \<open>undefined\<close>. The
      rendering of a number is the platform's.\<close>
  "ToString num JUndefined = Some ''undefined''"
| "ToString num JNull = Some ''null''"
| "ToString num (JBool b) = Some (if b then ''true'' else ''false'')"
| "ToString num (JNum r) = Some (num r)"
| "ToString num (JStr s) = Some s"
| "ToString num (JArr xs) =
     map_option (join '','')
       (all_some (map (\<lambda>x. if x = JUndefined \<or> x = JNull then Some [] else ToString num x) xs))"
| "ToString num (JObj kvs) =
     (if ''toString'' \<in> set (map fst kvs) then None else Some ''[object Object]'')"

section \<open>Failures and asynchronous computations\<close>

text \<open>
  A value caught by \<open>catch (error: any)\<close>, as the code tells the cases apart:
  \<^item> an instance of \<open>Error\<close>, with its constructor's name, its message and its further
    own fields;
  \<^item> another object, by what \<open>JSON.stringify\<close> does with it: it returns a text
    (\<open>PlainObject\<close>), it returns \<open>undefined\<close> (\<open>SilentObject\<close>, an object whose \<open>toJSON\<close>
    gives nothing), or it throws (\<open>ThrowingObject\<close> with the value thrown, a TypeError
    for a circular structure);
  \<^item> \<open>null\<close> and \<open>undefined\<close>, on which reading a property throws;
  \<^item> any other primitive, by its \<open>String\<close> conversion.
\<close>

record error_object =
  name :: string
  message :: string
  details :: "(string \<times> jsval) list"

datatype failure =
    ErrorObject error_object
  | PlainObject string
  | SilentObject
  | ThrowingObject failure
  | Null
  | Undefined
  | Primitive string

definition new_Error :: "string \<Rightarrow> failure" where
  \<comment> \<open>\<open>new Error(m)\<close>: a fresh plain \<open>Error\<close> that carries the message and nothing else.\<close>
  "new_Error m = ErrorObject \<lparr>name = ''Error'', message = m, details = []\<rparr>"

text \<open>
  An asynchronous computation runs from a state of the world (backend, credential,
  console) and settles with a result or a failure in a new state, or never settles
  (\<open>None\<close>).
\<close>

type_synonym ('s, 'a) async = "'s \<Rightarrow> ((failure + 'a) \<times> 's) option"

definition throw :: "failure \<Rightarrow> ('s, 'a) async" where
  "throw e = (\<lambda>s. Some (Inl e, s))"

definition await :: "('s, 'a) async \<Rightarrow> ('a \<Rightarrow> ('s, 'b) async) \<Rightarrow> ('s, 'b) async" where
  "await m k =
     (\<lambda>s. case m s of
        None \<Rightarrow> None
      | Some (Inl e, s') \<Rightarrow> Some (Inl e, s')
      | Some (Inr x, s') \<Rightarrow> k x s')"

definition try_catch :: "('s, 'a) async \<Rightarrow> (failure \<Rightarrow> ('s, 'a) async) \<Rightarrow> ('s, 'a) async" where
  "try_catch m h =
     (\<lambda>s. case m s of
        None \<Rightarrow> None
      | Some (Inl e, s') \<Rightarrow> h e s'
      | Some (Inr x, s') \<Rightarrow> Some (Inr x, s'))"

text \<open>
  An argument of a \<open>console.warn\<close> call: a text, or the \<open>message\<close> property of a caught
  value, whatever it holds.
\<close>

datatype logged = Text string | MessageOf failure

text \<open>
  The TypeErrors that the engine raises in this module: reading a property of \<open>null\<close> or
  \<open>undefined\<close>, calling a member that is not a function, and converting an object that
  has no primitive value. Their message texts are the engine's.
\<close>

datatype fault =
    ReadProperty jsval string
  | NotCallable string
  | NotPrimitive

text \<open>
  What the module takes from its host: \<open>JSON.parse\<close> (\<open>None\<close> when it throws),
  the rendering of numbers, the wording of TypeErrors, the credential-selection
  collaborator \<open>window.aistudio.openSelectKey\<close> (\<open>None\<close> in a state where \<open>window\<close>,
  \<open>aistudio\<close> or \<open>openSelectKey\<close> is missing), \<open>console.warn\<close>, and
  \<open>process.env.API_KEY\<close>.
\<close>

record 's platform =
  JSON_parse :: "string \<Rightarrow> jsval option"
  Number_toString :: "rat \<Rightarrow> string"
  TypeError_text :: "fault \<Rightarrow> string"
  openSelectKey :: "'s \<Rightarrow> ('s, unit) async option"
  console_warn :: "logged list \<Rightarrow> 's \<Rightarrow> 's"
  API_KEY :: "string option"

section \<open>The gateway: runWithAuthRetry\<close>

definition TypeError :: "'s platform \<Rightarrow> fault \<Rightarrow> failure" where
  "TypeError P f = ErrorObject \<lparr>name = ''TypeError'', message = TypeError_text P f, details = []\<rparr>"

definition extract_message :: "failure \<Rightarrow> failure + jsval" where
  \<comment> \<open>1. Extract string message from various error types. \<open>Inl\<close> is what
      \<open>JSON.stringify\<close> throws; \<open>Inr\<close> is the value assigned to \<open>msg\<close>, a string or,
      when \<open>JSON.stringify\<close> returns it, \<open>undefined\<close>.\<close>
  "extract_message error =
     (case error of
        ErrorObject e \<Rightarrow> Inr (JStr (message e))
      | PlainObject json \<Rightarrow> Inr (JStr json)
      | SilentObject \<Rightarrow> Inr JUndefined
      | ThrowingObject thrown \<Rightarrow> Inl thrown
      | Null \<Rightarrow> Inr (JStr ''null'')
      | Undefined \<Rightarrow> Inr (JStr ''undefined'')
      | Primitive text \<Rightarrow> Inr (JStr text))"

definition descriptor_matches :: "jsval \<Rightarrow> bool option" where
  \<comment> \<open>The condition on \<open>parsed.error\<close>, left to right with short-circuit; \<open>None\<close> when
      \<open>parsed.error.message.includes\<close> throws.\<close>
  "descriptor_matches err =
     (if getprop err ''code'' = JNum 403
         \<or> getprop err ''status'' = JStr ''PERMISSION_DENIED''
         \<or> getprop err ''code'' = JNum 404
         \<or> getprop err ''status'' = JStr ''NOT_FOUND''
         \<or> getprop err ''code'' = JNum 400
      then Some True
      else if truthy (getprop err ''message'')
      then includes_val (getprop err ''message'') ''quota''
      else Some False)"

definition parse_json_message :: "(string \<Rightarrow> jsval option) \<Rightarrow> string \<Rightarrow> bool \<times> jsval" where
  \<comment> \<open>2. Try to parse JSON message. The result is \<open>(isPermissionError, msg)\<close> as the
      \<open>try\<close> block leaves them; an exception inside the block (from \<open>JSON.parse\<close>, from
      reading \<open>parsed.error\<close> of \<open>null\<close>, from \<open>includes\<close>) abandons the rest of it.\<close>
  "parse_json_message parse msg =
     (let jsonStart = indexOf msg ''{'';
          jsonEnd = lastIndexOf msg ''}''
      in if jsonStart \<noteq> - 1 \<and> jsonEnd \<noteq> - 1 then
           (case parse (substring msg jsonStart (jsonEnd + 1)) of
              None \<Rightarrow> (False, JStr msg)
            | Some parsed \<Rightarrow>
                if nullish parsed then (False, JStr msg)
                else if truthy (getprop parsed ''error'') then
                  (case descriptor_matches (getprop parsed ''error'') of
                     None \<Rightarrow> (False, JStr msg)
                   | Some isPermissionError \<Rightarrow>
                       (isPermissionError,
                        if truthy (getprop (getprop parsed ''error'') ''message'')
                        then getprop (getprop parsed ''error'') ''message''
                        else JStr msg))
                else (False, JStr msg))
         else (False, JStr msg))"

definition fallback_patterns :: "string list" where
  "fallback_patterns =
     [''403'', ''PERMISSION_DENIED'', ''The caller does not have permission'',
      ''API_KEY is not defined'', ''API key not valid'', ''INVALID_ARGUMENT'',
      ''quota'', ''404'', ''NOT_FOUND'', ''Requested entity was not found'']"

fun any_includes :: "jsval \<Rightarrow> string list \<Rightarrow> bool option" where
  \<comment> \<open>\<open>msg.includes(p1) || msg.includes(p2) || ...\<close>\<close>
  "any_includes msg [] = Some False"
| "any_includes msg (p # ps) =
     (case includes_val msg p of
        None \<Rightarrow> None
      | Some True \<Rightarrow> Some True
      | Some False \<Rightarrow> any_includes msg ps)"

definition json_step :: "(string \<Rightarrow> jsval option) \<Rightarrow> jsval \<Rightarrow> bool \<times> jsval" where
  \<comment> \<open>Step 2 on the value of \<open>msg\<close>: on \<open>undefined\<close> the call \<open>msg.indexOf\<close> throws
      inside the \<open>try\<close> block and nothing changes.\<close>
  "json_step parse msg =
     (case msg of JStr text \<Rightarrow> parse_json_message parse text | _ \<Rightarrow> (False, msg))"

definition includes_fault :: "jsval \<Rightarrow> fault" where
  \<comment> \<open>why \<open>msg.includes(...)\<close> throws on a value without a callable \<open>includes\<close>\<close>
  "includes_fault msg =
     (if msg = JUndefined \<or> msg = JNull then ReadProperty msg ''includes''
      else NotCallable ''includes'')"

definition classify :: "'s platform \<Rightarrow> failure \<Rightarrow> failure + bool \<times> jsval" where
  \<comment> \<open>Steps 1 to 3: \<open>Inr (isPermissionError, msg)\<close>, or \<open>Inl\<close> what these steps throw
      (from \<open>JSON.stringify\<close> in step 1, from \<open>msg.includes\<close> in step 3).\<close>
  "classify P error =
     (case extract_message error of
        Inl thrown \<Rightarrow> Inl thrown
      | Inr msg0 \<Rightarrow>
          (let (isPermissionError, msg) = json_step (JSON_parse P) msg0
           in if \<not> isPermissionError then
                (case any_includes msg fallback_patterns of
                   None \<Rightarrow> Inl (TypeError P (includes_fault msg))
                 | Some found \<Rightarrow> Inr (found, msg))
              else Inr (True, msg)))"

definition prompt_warning :: string where
  "prompt_warning = ''Auth/Model access error detected. Prompting user for API Key...''"

definition connection_failed :: string where
  "connection_failed = ''Connection failed. Please select a valid API Key.''"

definition construct_Error :: "'s platform \<Rightarrow> jsval \<Rightarrow> failure" where
  \<comment> \<open>What \<open>throw new Error(msg)\<close> throws: the new \<open>Error\<close>, or the TypeError of the
      constructor's string conversion. The constructor converts every argument but
      \<open>undefined\<close>, for which the message is the empty one of the prototype.\<close>
  "construct_Error P msg =
     (if msg = JUndefined then new_Error []
      else case ToString (Number_toString P) msg of
             Some text \<Rightarrow> new_Error text
           | None \<Rightarrow> TypeError P NotPrimitive)"

definition runWithAuthRetry :: "'s platform \<Rightarrow> ('s, 'a) async \<Rightarrow> bool \<Rightarrow> ('s, 'a) async" where
  "runWithAuthRetry P operation requireAuth =
     try_catch operation (\<lambda>error.
       case classify P error of
         Inl thrown \<Rightarrow> throw thrown
       | Inr (isPermissionError, msg) \<Rightarrow>
           (\<lambda>s. \<comment> \<open>4. Trigger Retry Logic ONLY if requireAuth is true\<close>
                 if isPermissionError \<and> requireAuth then
                   (case openSelectKey P s of
                      Some selectKey \<Rightarrow>
                        try_catch (await selectKey (\<lambda>_. operation))
                          (\<lambda>retryError. throw (new_Error connection_failed))
                          (console_warn P [Text prompt_warning] s)
                    | None \<Rightarrow> throw (construct_Error P msg) s)
                 \<comment> \<open>5. Final Throw\<close>
                 else throw (construct_Error P msg) s))"

section \<open>Image generation and editing\<close>

datatype AspectRatio =
    SQUARE | PORTRAIT | LANDSCAPE | WIDE_PORTRAIT | WIDE_LANDSCAPE
  | CINEMATIC | STANDARD_PORTRAIT | STANDARD_LANDSCAPE

datatype ImageSize = K1 | K2 | K4

text \<open>A request to \<open>ai.models.generateContent\<close>.\<close>

datatype request_part = InlineData string string | TextPart string

record image_config =
  aspectRatio :: AspectRatio
  imageSize :: ImageSize

record content_request =
  model :: string
  contents :: "request_part list"
  imageConfig :: "image_config option"

text \<open>
  A response, as far as \<open>response.candidates?.[0]?.content?.parts\<close> and the loop over
  the parts read it. A missing field is \<open>None\<close>.
\<close>

record inline_data =
  mimeType :: "string option"
  data :: "string option"

record part =
  inlineData :: "inline_data option"
  part_text :: "string option"

record candidate =
  content_parts :: "part list option option"

record response =
  candidates :: "candidate list option"

text \<open>
  \<open>content_parts\<close> is \<open>None\<close> for a candidate without \<open>content\<close>, and \<open>Some None\<close> for
  a content without \<open>parts\<close>.
\<close>

record 's genai =
  generateContent :: "content_request \<Rightarrow> ('s, response) async"

definition getClient :: "'s platform \<Rightarrow> (string \<Rightarrow> 'c) \<Rightarrow> 'c" where
  \<comment> \<open>\<open>new GoogleGenAI({ apiKey: process.env.API_KEY || "lazy_auth_key" })\<close>\<close>
  "getClient P GoogleGenAI =
     GoogleGenAI (case API_KEY P of
                    Some k \<Rightarrow> if k \<noteq> [] then k else ''lazy_auth_key''
                  | None \<Rightarrow> ''lazy_auth_key'')"

definition response_parts :: "response \<Rightarrow> part list option" where
  \<comment> \<open>\<open>response.candidates?.[0]?.content?.parts\<close>\<close>
  "response_parts response =
     (case candidates response of
        None \<Rightarrow> None
      | Some [] \<Rightarrow> None
      | Some (c # cs) \<Rightarrow> (case content_parts c of None \<Rightarrow> None | Some ps \<Rightarrow> ps))"

definition inline_payload :: "part \<Rightarrow> string option" where
  \<comment> \<open>\<open>part.inlineData && part.inlineData.data\<close>, when truthy\<close>
  "inline_payload p =
     (case inlineData p of
        None \<Rightarrow> None
      | Some i \<Rightarrow> (case data i of None \<Rightarrow> None | Some d \<Rightarrow> if d \<noteq> [] then Some d else None))"

fun scan_parts :: "part list \<Rightarrow> string \<Rightarrow> string + string" where
  \<comment> \<open>The loop \<open>for (const part of parts)\<close>: \<open>Inr\<close> is the early \<open>return\<close> of the data
      URI, \<open>Inl\<close> the \<open>textRefusal\<close> at the end of the loop.\<close>
  "scan_parts [] textRefusal = Inl textRefusal"
| "scan_parts (p # ps) textRefusal =
     (case inline_payload p of
        Some d \<Rightarrow> Inr (''data:image/png;base64,'' @ d)
      | None \<Rightarrow>
          scan_parts ps
            (case part_text p of
               Some t \<Rightarrow> if t \<noteq> [] then textRefusal @ t else textRefusal
             | None \<Rightarrow> textRefusal))"

definition extract_image :: "string \<Rightarrow> string \<Rightarrow> response \<Rightarrow> failure + string" where
  \<comment> \<open>The extraction that \<open>generateImage\<close> and \<open>editImage\<close> each write out, with the two
      messages that differ between them.\<close>
  "extract_image refused nothing response =
     (case (case response_parts response of
              Some parts \<Rightarrow> scan_parts parts []
            | None \<Rightarrow> Inl []) of
        Inr uri \<Rightarrow> Inr uri
      | Inl textRefusal \<Rightarrow>
          if textRefusal \<noteq> [] then Inl (new_Error (refused @ textRefusal))
          else Inl (new_Error nothing))"

definition extractImageFromResponse :: "response \<Rightarrow> failure + string" where
  "extractImageFromResponse = extract_image ''Model refused: '' ''No image data returned.''"

definition extract_edited :: "response \<Rightarrow> failure + string" where
  \<comment> \<open>lines 177 to 190, inside \<open>editImage\<close>\<close>
  "extract_edited = extract_image ''Model unable to edit: '' ''No edited image returned.''"

definition settle :: "failure + 'a \<Rightarrow> ('s, 'a) async" where
  \<comment> \<open>\<open>return\<close> or \<open>throw\<close> of a synchronous step inside an async function\<close>
  "settle r = (\<lambda>s. Some (r, s))"

definition pro_request :: "string \<Rightarrow> AspectRatio \<Rightarrow> ImageSize \<Rightarrow> content_request" where
  "pro_request prompt ratio res =
     \<lparr>model = ''gemini-3-pro-image-preview'',
      contents = [TextPart prompt],
      imageConfig = Some \<lparr>aspectRatio = ratio, imageSize = res\<rparr>\<rparr>"

definition flash_request :: "string \<Rightarrow> content_request" where
  "flash_request prompt =
     \<lparr>model = ''gemini-2.5-flash-image'',
      contents = [TextPart prompt],
      imageConfig = None\<rparr>"

definition image_attempt ::
  "'s platform \<Rightarrow> (string \<Rightarrow> 's genai) \<Rightarrow> content_request \<Rightarrow> ('s, string) async" where
  \<comment> \<open>One attempt of \<open>generateImage\<close>: \<open>getClient()\<close>, \<open>await ai.models.generateContent\<close>,
      \<open>return extractImageFromResponse(response)\<close>.\<close>
  "image_attempt P GoogleGenAI request =
     await (generateContent (getClient P GoogleGenAI) request)
       (\<lambda>response. settle (extractImageFromResponse response))"

definition pro_failed :: string where
  "pro_failed = ''Pro Image Gen failed, falling back to Flash silently.''"

definition read_message :: "'s platform \<Rightarrow> failure \<Rightarrow> failure option" where
  \<comment> \<open>The read \<open>err.message\<close> in the arguments of \<open>console.warn\<close>: it throws when the
      caught value is \<open>null\<close> or \<open>undefined\<close>.\<close>
  "read_message P err =
     (case err of
        Null \<Rightarrow> Some (TypeError P (ReadProperty JNull ''message''))
      | Undefined \<Rightarrow> Some (TypeError P (ReadProperty JUndefined ''message''))
      | _ \<Rightarrow> None)"

definition generateImage ::
  "'s platform \<Rightarrow> (string \<Rightarrow> 's genai) \<Rightarrow> string \<Rightarrow> AspectRatio \<Rightarrow> ImageSize \<Rightarrow> ('s, string) async" where
  "generateImage P GoogleGenAI prompt ratio res =
     \<comment> \<open>1. Try Gemini 3 Pro (High Quality) - Silent Fail\<close>
     try_catch (image_attempt P GoogleGenAI (pro_request prompt ratio res))
       (\<lambda>err s.
          case read_message P err of
            Some thrown \<Rightarrow> throw thrown s
          | None \<Rightarrow>
              \<comment> \<open>2. Fallback to Gemini 2.5 Flash Image - Retry Auth enabled here if this also fails\<close>
              runWithAuthRetry P (image_attempt P GoogleGenAI (flash_request prompt)) True
                (console_warn P [Text pro_failed, MessageOf err] s))"

definition second_piece :: "string \<Rightarrow> string option" where
  \<comment> \<open>\<open>s.split(',')[1]\<close>: the text between the first comma and the next one\<close>
  "second_piece s =
     (case dropWhile (\<lambda>c. c \<noteq> CHR '','') s of
        [] \<Rightarrow> None
      | c # rest \<Rightarrow> Some (takeWhile (\<lambda>c. c \<noteq> CHR '','') rest))"

definition base64_of :: "string \<Rightarrow> string" where
  \<comment> \<open>\<open>s.split(',')[1] || s\<close>\<close>
  "base64_of s = (case second_piece s of Some d \<Rightarrow> if d \<noteq> [] then d else s | None \<Rightarrow> s)"

definition editImage ::
  "'s platform \<Rightarrow> (string \<Rightarrow> 's genai) \<Rightarrow> string \<Rightarrow> string \<Rightarrow> string \<Rightarrow> ('s, string) async" where
  "editImage P GoogleGenAI base64Image prompt mime =
     runWithAuthRetry P
       (await
          (generateContent (getClient P GoogleGenAI)
             \<lparr>model = ''gemini-2.5-flash-image'',
              contents = [InlineData mime (base64_of base64Image), TextPart prompt],
              imageConfig = None\<rparr>)
          (\<lambda>response. settle (extract_edited response)))
       True"

section \<open>Video generation\<close>

datatype VideoAspect = Wide_16_9 | Tall_9_16

record video_image =
  imageBytes :: string
  image_mimeType :: string

record video_request =
  video_model :: string
  numberOfVideos :: nat
  resolution :: string
  video_aspectRatio :: VideoAspect
  video_prompt :: "string option"
  image :: "video_image option"

text \<open>
  A long-running video job: \<open>is_done\<close> for \<open>operation.done\<close>, and \<open>video_uri\<close> for
  \<open>operation.response?.generatedVideos?.[0]?.video?.uri\<close>.
\<close>

record video_operation =
  job :: string
  is_done :: bool
  video_uri :: "string option"

record fetch_response =
  ok :: bool
  statusText :: string
  body :: string

text \<open>
  The video side of the client (\<open>ai.models.generateVideos\<close>,
  \<open>ai.operations.getVideosOperation\<close>), and what the download takes from the browser:
  the timer behind \<open>setTimeout\<close>, \<open>fetch\<close>, \<open>res.blob()\<close> and \<open>URL.createObjectURL\<close>.
\<close>

record 's veo =
  generateVideos :: "video_request \<Rightarrow> ('s, video_operation) async"
  getVideosOperation :: "video_operation \<Rightarrow> ('s, video_operation) async"

record 's web =
  setTimeout :: "nat \<Rightarrow> 's \<Rightarrow> 's"
  fetch :: "string \<Rightarrow> ('s, fetch_response) async"
  blob :: "fetch_response \<Rightarrow> ('s, string) async"
  createObjectURL :: "string \<Rightarrow> 's \<Rightarrow> string \<times> 's"

fun mime_match :: "string \<Rightarrow> string option" where
  \<comment> \<open>\<open>s.match(/data:([^;]+);base64/)?.[1]\<close>: at the leftmost position where the
      pattern matches, the run of characters other than \<open>;\<close> after \<open>data:\<close>.\<close>
  "mime_match [] = None"
| "mime_match (c # cs) =
     (if prefix ''data:'' (c # cs) then
        (let rest = drop 5 (c # cs);
             run = takeWhile (\<lambda>x. x \<noteq> CHR '';'') rest
         in if run \<noteq> [] \<and> prefix '';base64'' (dropWhile (\<lambda>x. x \<noteq> CHR '';'') rest)
            then Some run
            else mime_match cs)
      else mime_match cs)"

definition mime_of :: "string \<Rightarrow> string" where
  \<comment> \<open>\<open>referenceImage.match(/data:([^;]+);base64/)?.[1] || 'image/png'\<close>\<close>
  "mime_of s = (case mime_match s of Some m \<Rightarrow> if m \<noteq> [] then m else ''image/png'' | None \<Rightarrow> ''image/png'')"

definition or_else :: "string \<Rightarrow> string \<Rightarrow> string" where
  \<comment> \<open>\<open>s || d\<close> on strings\<close>
  "or_else s d = (if s \<noteq> [] then s else d)"

definition supplied :: "string option \<Rightarrow> string option" where
  \<comment> \<open>the optional argument \<open>referenceImage\<close> when it is truthy\<close>
  "supplied referenceImage =
     (case referenceImage of None \<Rightarrow> None | Some r \<Rightarrow> if r \<noteq> [] then Some r else None)"

partial_function (option) poll ::
  "'s veo \<Rightarrow> 's web \<Rightarrow> video_operation \<Rightarrow> 's \<Rightarrow> ((failure + video_operation) \<times> 's) option" where
  \<comment> \<open>\<open>while (!operation.done) { await delay(5000); operation = await getVideosOperation(...) }\<close>\<close>
  "poll ai W operation s =
     (if is_done operation then Some (Inr operation, s)
      else (case getVideosOperation ai operation (setTimeout W 5000 s) of
              None \<Rightarrow> None
            | Some (Inl e, s') \<Rightarrow> Some (Inl e, s')
            | Some (Inr operation', s') \<Rightarrow> poll ai W operation' s'))"

definition veo_job ::
  "'s platform \<Rightarrow> (string \<Rightarrow> 's veo) \<Rightarrow> 's web \<Rightarrow> string \<Rightarrow> VideoAspect \<Rightarrow> string option
     \<Rightarrow> ('s, string) async" where
  \<comment> \<open>the thunk that Pro mode passes to the gateway\<close>
  "veo_job P Veo W prompt aspect referenceImage =
     (let ai = getClient P Veo;
          request =
            \<lparr>video_model = ''veo-3.1-fast-generate-preview'',
             numberOfVideos = 1,
             resolution = ''720p'',
             video_aspectRatio = aspect,
             video_prompt = (if prompt \<noteq> [] then Some prompt else None),
             image = (case supplied referenceImage of
                        Some r \<Rightarrow> Some \<lparr>imageBytes = base64_of r, image_mimeType = mime_of r\<rparr>
                      | None \<Rightarrow> None)\<rparr>
      in if video_prompt request = None \<and> image request = None
         then throw (new_Error ''Prompt or Image required for video generation'')
         else
           await (generateVideos ai request) (\<lambda>operation.
           await (poll ai W operation) (\<lambda>operation.
             case (case video_uri operation of
                     Some u \<Rightarrow> if u \<noteq> [] then Some u else None
                   | None \<Rightarrow> None) of
               None \<Rightarrow> throw (new_Error ''Video generation failed: No URI returned'')
             | Some videoUri \<Rightarrow>
                 (case (case API_KEY P of
                          Some k \<Rightarrow> if k \<noteq> [] then Some k else None
                        | None \<Rightarrow> None) of
                    None \<Rightarrow> throw (new_Error ''API Key required for download'')
                  | Some apiKey \<Rightarrow>
                      await (fetch W (videoUri @ ''&key='' @ apiKey)) (\<lambda>res.
                        if \<not> ok res then throw (new_Error (''Download failed: '' @ statusText res))
                        else await (blob W res) (\<lambda>b s.
                               case createObjectURL W b s of (url, s') \<Rightarrow> Some (Inr url, s')))))))"

definition generateVideo ::
  "'s platform \<Rightarrow> (string \<Rightarrow> 's genai) \<Rightarrow> (string \<Rightarrow> 's veo) \<Rightarrow> 's web
     \<Rightarrow> string \<Rightarrow> VideoAspect \<Rightarrow> string option \<Rightarrow> bool \<Rightarrow> ('s, string) async" where
  "generateVideo P GoogleGenAI Veo W prompt aspect referenceImage useProMode =
     \<comment> \<open>If not pro mode, fallback to image generation (Flash)\<close>
     (if \<not> useProMode then
        (case supplied referenceImage of
           Some r \<Rightarrow> editImage P GoogleGenAI r (or_else prompt ''Enhance this'') (mime_of r)
         | None \<Rightarrow>
             generateImage P GoogleGenAI (or_else prompt ''Preview'')
               (if aspect = Wide_16_9 then WIDE_LANDSCAPE else WIDE_PORTRAIT) K1)
      \<comment> \<open>Pro Mode: Veo\<close>
      else runWithAuthRetry P (veo_job P Veo W prompt aspect referenceImage) True)"

section \<open>A host for examples\<close>

subsection \<open>Reading JSON\<close>

text \<open>
  The examples need a concrete \<open>JSON.parse\<close>. This reader follows the JSON grammar:
  whitespace, the six structural characters, strings with their escapes, numbers, and the
  three literals. A number has the exact value of its decimal text, where JavaScript takes
  the nearest double; a unicode escape beyond the 8-bit characters is not read. The
  comparisons of lengths in \<open>tokenize\<close>, \<open>parse_elements\<close> and \<open>parse_members\<close> always
  hold (each step consumes input); they are there for the termination proofs. The
  theorems about the gateway hold for every \<open>JSON_parse\<close>, this one included.
\<close>

datatype token =
    LBrace | RBrace | LBracket | RBracket | Colon | Comma
  | TString string | TNumber rat | TTrue | TFalse | TNull

definition is_digit :: "char \<Rightarrow> bool" where
  "is_digit c = (48 \<le> (of_char c :: nat) \<and> (of_char c :: nat) \<le> 57)"

definition digit_val :: "char \<Rightarrow> nat" where
  "digit_val c = of_char c - 48"

definition digits_val :: "string \<Rightarrow> nat" where
  "digits_val ds = foldl (\<lambda>n d. 10 * n + digit_val d) 0 ds"

definition hex_val :: "char \<Rightarrow> nat option" where
  "hex_val c =
     (if is_digit c then Some (digit_val c)
      else if 97 \<le> (of_char c :: nat) \<and> (of_char c :: nat) \<le> 102 then Some (of_char c - 87)
      else if 65 \<le> (of_char c :: nat) \<and> (of_char c :: nat) \<le> 70 then Some (of_char c - 55)
      else None)"

definition unicode_escape :: "char \<Rightarrow> char \<Rightarrow> char \<Rightarrow> char \<Rightarrow> char option" where
  "unicode_escape a b c d =
     (case (hex_val a, hex_val b, hex_val c, hex_val d) of
        (Some h3, Some h2, Some h1, Some h0) \<Rightarrow>
          if h3 = 0 \<and> h2 = 0 then Some (char_of (16 * h1 + h0)) else None
      | _ \<Rightarrow> None)"

definition simple_escape :: "char \<Rightarrow> char option" where
  "simple_escape e =
     (if e = CHR 0x22 then Some (CHR 0x22)
      else if e = CHR 0x5C then Some (CHR 0x5C)
      else if e = CHR ''/'' then Some (CHR ''/'')
      else if e = CHR ''b'' then Some (CHR 0x08)
      else if e = CHR ''f'' then Some (CHR 0x0C)
      else if e = CHR ''n'' then Some (CHR 0x0A)
      else if e = CHR ''r'' then Some (CHR 0x0D)
      else if e = CHR ''t'' then Some (CHR 0x09)
      else None)"

fun lex_string :: "string \<Rightarrow> (string \<times> string) option" where
  "lex_string [] = None"
| "lex_string (c # cs) =
     (if c = CHR 0x22 then Some ([], cs)
      else if c = CHR 0x5C then
        (case cs of
           [] \<Rightarrow> None
         | e # cs' \<Rightarrow>
             if e = CHR ''u'' then
               (case cs' of
                  h3 # h2 # h1 # h0 # cs'' \<Rightarrow>
                    (case unicode_escape h3 h2 h1 h0 of
                       None \<Rightarrow> None
                     | Some u \<Rightarrow> map_option (apfst ((#) u)) (lex_string cs''))
                | _ \<Rightarrow> None)
             else
               (case simple_escape e of
                  None \<Rightarrow> None
                | Some u \<Rightarrow> map_option (apfst ((#) u)) (lex_string cs')))
      else if (of_char c :: nat) < 32 then None
      else map_option (apfst ((#) c)) (lex_string cs))"

definition lex_number :: "string \<Rightarrow> (rat \<times> string) option" where
  "lex_number cs =
     (let (negative, cs1) = (case cs of c # r \<Rightarrow> if c = CHR ''-'' then (True, r) else (False, cs) | [] \<Rightarrow> (False, cs));
          ip = takeWhile is_digit cs1;
          cs2 = dropWhile is_digit cs1;
          (fp, cs3) = (case cs2 of
                         c # r \<Rightarrow> if c = CHR ''.'' then (Some (takeWhile is_digit r), dropWhile is_digit r)
                                  else (None, cs2)
                       | [] \<Rightarrow> (None, cs2));
          (ex, cs4) = (case cs3 of
                         c # r \<Rightarrow>
                           if c = CHR ''e'' \<or> c = CHR ''E'' then
                             (case r of
                                d # r' \<Rightarrow>
                                  if d = CHR ''+'' then (Some (False, takeWhile is_digit r'), dropWhile is_digit r')
                                  else if d = CHR ''-'' then (Some (True, takeWhile is_digit r'), dropWhile is_digit r')
                                  else (Some (False, takeWhile is_digit r), dropWhile is_digit r)
                              | [] \<Rightarrow> (Some (False, []), []))
                           else (None, cs3)
                       | [] \<Rightarrow> (None, cs3))
      in if ip = [] \<or> (length ip > 1 \<and> hd ip = CHR ''0'') then None
         else if fp = Some [] then None
         else if (case ex of Some (_, ds) \<Rightarrow> ds = [] | None \<Rightarrow> False) then None
         else
           let mantissa = (of_nat (digits_val ip) :: rat)
                 + (case fp of Some ds \<Rightarrow> of_nat (digits_val ds) / 10 ^ length ds | None \<Rightarrow> 0);
               scaled = (case ex of
                           Some (neg, ds) \<Rightarrow> if neg then mantissa / 10 ^ digits_val ds
                                              else mantissa * 10 ^ digits_val ds
                         | None \<Rightarrow> mantissa)
           in Some (if negative then - scaled else scaled, cs4))"

fun tokenize :: "string \<Rightarrow> token list option" where
  "tokenize [] = Some []"
| "tokenize (c # cs) =
     (if c = CHR '' '' \<or> c = CHR 0x09 \<or> c = CHR 0x0A \<or> c = CHR 0x0D then tokenize cs
      else if c = CHR ''{'' then map_option ((#) LBrace) (tokenize cs)
      else if c = CHR ''}'' then map_option ((#) RBrace) (tokenize cs)
      else if c = CHR ''['' then map_option ((#) LBracket) (tokenize cs)
      else if c = CHR '']'' then map_option ((#) RBracket) (tokenize cs)
      else if c = CHR '':'' then map_option ((#) Colon) (tokenize cs)
      else if c = CHR '','' then map_option ((#) Comma) (tokenize cs)
      else if c = CHR 0x22 then
        (case lex_string cs of
           None \<Rightarrow> None
         | Some (s, rest) \<Rightarrow>
             if length rest < length (c # cs) then map_option ((#) (TString s)) (tokenize rest) else None)
      else if c = CHR ''-'' \<or> is_digit c then
        (case lex_number (c # cs) of
           None \<Rightarrow> None
         | Some (r, rest) \<Rightarrow>
             if length rest < length (c # cs) then map_option ((#) (TNumber r)) (tokenize rest) else None)
      else if take 4 (c # cs) = ''true'' then map_option ((#) TTrue) (tokenize (drop 3 cs))
      else if take 5 (c # cs) = ''false'' then map_option ((#) TFalse) (tokenize (drop 4 cs))
      else if take 4 (c # cs) = ''null'' then map_option ((#) TNull) (tokenize (drop 3 cs))
      else None)"

fun parse_value :: "token list \<Rightarrow> (jsval \<times> token list) option"
  and parse_elements :: "token list \<Rightarrow> (jsval list \<times> token list) option"
  and parse_members :: "token list \<Rightarrow> ((string \<times> jsval) list \<times> token list) option" where
  "parse_value [] = None"
| "parse_value (TNull # ts) = Some (JNull, ts)"
| "parse_value (TTrue # ts) = Some (JBool True, ts)"
| "parse_value (TFalse # ts) = Some (JBool False, ts)"
| "parse_value (TNumber r # ts) = Some (JNum r, ts)"
| "parse_value (TString s # ts) = Some (JStr s, ts)"
| "parse_value (LBracket # ts) =
     (case ts of
        RBracket # ts' \<Rightarrow> Some (JArr [], ts')
      | _ \<Rightarrow> map_option (apfst JArr) (parse_elements ts))"
| "parse_value (LBrace # ts) =
     (case ts of
        RBrace # ts' \<Rightarrow> Some (JObj [], ts')
      | _ \<Rightarrow> map_option (apfst JObj) (parse_members ts))"
| "parse_value (t # ts) = None"
| "parse_elements ts =
     (case parse_value ts of
        None \<Rightarrow> None
      | Some (v, ts1) \<Rightarrow>
          (case ts1 of
             RBracket # ts2 \<Rightarrow> Some ([v], ts2)
           | Comma # ts2 \<Rightarrow>
               if length ts2 < length ts then map_option (apfst ((#) v)) (parse_elements ts2) else None
           | _ \<Rightarrow> None))"
| "parse_members (TString k # Colon # ts) =
     (case parse_value ts of
        None \<Rightarrow> None
      | Some (v, ts1) \<Rightarrow>
          (case ts1 of
             RBrace # ts2 \<Rightarrow> Some ([(k, v)], ts2)
           | Comma # ts2 \<Rightarrow>
               if length ts2 < length ts then map_option (apfst ((#) (k, v))) (parse_members ts2) else None
           | _ \<Rightarrow> None))"
| "parse_members ts = None"

definition read_json :: "string \<Rightarrow> jsval option" where
  \<comment> \<open>\<open>JSON.parse(text)\<close>; \<open>None\<close> for a SyntaxError\<close>
  "read_json text =
     (case tokenize text of
        None \<Rightarrow> None
      | Some ts \<Rightarrow> (case parse_value ts of Some (v, []) \<Rightarrow> Some v | _ \<Rightarrow> None))"

subsection \<open>Rendering numbers\<close>

fun show_nat :: "nat \<Rightarrow> string" where
  "show_nat n =
     (if n < 10 then [char_of (48 + n)]
      else show_nat (n div 10) @ [char_of (48 + n mod 10)])"

fun frac_digits :: "nat \<Rightarrow> nat \<Rightarrow> nat \<Rightarrow> string" where
  "frac_digits 0 r q = []"
| "frac_digits (Suc k) r q =
     (if r = 0 then []
      else char_of (48 + (10 * r) div q) # frac_digits k ((10 * r) mod q) q)"

definition show_number :: "rat \<Rightarrow> string" where
  \<comment> \<open>Decimal text of a number: JavaScript's rendering for an integer below \<open>10^21\<close>
      and for a short decimal fraction of ordinary magnitude.\<close>
  "show_number r =
     (case quotient_of r of
        (p, q) \<Rightarrow>
          (if p < 0 then ''-'' else [])
          @ show_nat (nat \<bar>p\<bar> div nat q)
          @ (if nat \<bar>p\<bar> mod nat q = 0 then []
             else ''.'' @ frac_digits 20 (nat \<bar>p\<bar> mod nat q) (nat q)))"

subsection \<open>A scripted world\<close>

text \<open>
  The state of the example world counts the calls that reached the backend and the
  credential prompts shown, and keeps the console.
\<close>

record world =
  invoked :: nat
  prompted :: nat
  console :: "logged list list"

definition fresh :: world where
  "fresh = \<lparr>invoked = 0, prompted = 0, console = []\<rparr>"

definition scripted :: "(failure + 'a) list \<Rightarrow> (world, 'a) async" where
  \<comment> \<open>An operation whose n-th invocation settles with the n-th outcome of the script,
      and that never settles once the script is used up.\<close>
  "scripted outcomes =
     (\<lambda>s. if invoked s < length outcomes
          then Some (outcomes ! invoked s, s\<lparr>invoked := Suc (invoked s)\<rparr>)
          else None)"

definition fault_text :: "fault \<Rightarrow> string" where
  \<comment> \<open>the wording of V8\<close>
  "fault_text f =
     (case f of
        ReadProperty v k \<Rightarrow>
          ''Cannot read properties of '' @ (if v = JNull then ''null'' else ''undefined'')
          @ '' (reading '' @ [CHR 0x27] @ k @ [CHR 0x27] @ '')''
      | NotCallable k \<Rightarrow> ''msg.'' @ k @ '' is not a function''
      | NotPrimitive \<Rightarrow> ''Cannot convert object to primitive value'')"

definition browser :: "(failure + unit) option \<Rightarrow> world platform" where
  \<comment> \<open>A host whose credential-selection collaborator is missing (\<open>None\<close>) or settles
      every prompt with the given answer.\<close>
  "browser studio =
     \<lparr>JSON_parse = read_json,
      Number_toString = show_number,
      TypeError_text = fault_text,
      openSelectKey =
        (\<lambda>s. case studio of
               None \<Rightarrow> None
             | Some answer \<Rightarrow> Some (\<lambda>s. Some (answer, s\<lparr>prompted := Suc (prompted s)\<rparr>))),
      console_warn = (\<lambda>args s. s\<lparr>console := console s @ [args]\<rparr>),
      API_KEY = None\<rparr>"

definition client :: "(content_request \<Rightarrow> failure + response) \<Rightarrow> string \<Rightarrow> world genai" where
  \<comment> \<open>A client whose backend answers each request by the given table.\<close>
  "client answer apiKey =
     \<lparr>generateContent = (\<lambda>req s. Some (answer req, s\<lparr>invoked := Suc (invoked s)\<rparr>))\<rparr>"

definition api_error :: "string \<Rightarrow> failure" where
  "api_error m = ErrorObject \<lparr>name = ''ApiError'', message = m, details = []\<rparr>"

section \<open>Counting invocations and prompts\<close>

text \<open>
  To count how often the gateway invokes its operation and the credential prompt, any
  operation and any platform are run on a state extended with two counters: each
  invocation of the operation and each prompt advances its counter and otherwise acts as
  before.
\<close>

record 's probe =
  invocations :: nat
  prompts :: nat
  inner :: 's

definition probe0 :: "'s \<Rightarrow> 's probe" where
  "probe0 s = \<lparr>invocations = 0, prompts = 0, inner = s\<rparr>"

definition counted :: "('s, 'a) async \<Rightarrow> ('s probe, 'a) async" where
  "counted operation =
     (\<lambda>p. case operation (inner p) of
            None \<Rightarrow> None
          | Some (r, s') \<Rightarrow> Some (r, p\<lparr>invocations := Suc (invocations p), inner := s'\<rparr>))"

definition probed :: "'s platform \<Rightarrow> 's probe platform" where
  "probed P =
     \<lparr>JSON_parse = JSON_parse P,
      Number_toString = Number_toString P,
      TypeError_text = TypeError_text P,
      openSelectKey =
        (\<lambda>p. case openSelectKey P (inner p) of
               None \<Rightarrow> None
             | Some selectKey \<Rightarrow>
                 Some (\<lambda>p. case selectKey (inner p) of
                             None \<Rightarrow> None
                           | Some (r, s') \<Rightarrow> Some (r, p\<lparr>prompts := Suc (prompts p), inner := s'\<rparr>))),
      console_warn = (\<lambda>args p. p\<lparr>inner := console_warn P args (inner p)\<rparr>),
      API_KEY = API_KEY P\<rparr>"

section \<open>Vocabulary of the claims\<close>

definition retryable :: "'s platform \<Rightarrow> failure \<Rightarrow> bool" where
  \<comment> \<open>steps 1 to 3 complete and leave the gateway's \<open>isPermissionError\<close> true\<close>
  "retryable P error = (case classify P error of Inr (found, msg) \<Rightarrow> found | Inl thrown \<Rightarrow> False)"

definition working_message :: "'s platform \<Rightarrow> failure \<Rightarrow> jsval" where
  \<comment> \<open>the gateway's variable \<open>msg\<close> after steps 1 and 2; it still holds its initial
      empty string when step 1 throws\<close>
  "working_message P error =
     (case extract_message error of
        Inl thrown \<Rightarrow> JStr []
      | Inr msg0 \<Rightarrow> snd (json_step (JSON_parse P) msg0))"

definition reported :: "'s platform \<Rightarrow> failure \<Rightarrow> failure" where
  \<comment> \<open>what the gateway throws when it starts no retry: what steps 1 to 3 throw, or
      else what \<open>throw new Error(msg)\<close> of step 5 throws\<close>
  "reported P error =
     (case classify P error of
        Inl thrown \<Rightarrow> thrown
      | Inr (found, msg) \<Rightarrow> construct_Error P msg)"

definition embedded_error :: "(string \<Rightarrow> jsval option) \<Rightarrow> string \<Rightarrow> jsval option" where
  \<comment> \<open>The nested error descriptor of a message: the truthy \<open>error\<close> member of the value
      that \<open>JSON.parse\<close> returns for the fragment from the first \<open>{\<close> to the last \<open>}\<close>.\<close>
  "embedded_error parse msg =
     (if includes_str msg ''{'' \<and> includes_str msg ''}'' then
        (case parse (substring msg (indexOf msg ''{'') (lastIndexOf msg ''}'' + 1)) of
           None \<Rightarrow> None
         | Some parsed \<Rightarrow>
             if \<not> nullish parsed \<and> truthy (getprop parsed ''error'')
             then Some (getprop parsed ''error'')
             else None)
      else None)"

definition in_table :: "jsval \<Rightarrow> bool" where
  \<comment> \<open>The table of the specification: code 403, status \<open>PERMISSION_DENIED\<close>, code 404,
      status \<open>NOT_FOUND\<close>, code 400, or a nested message containing \<open>quota\<close>.\<close>
  "in_table err =
     (getprop err ''code'' = JNum 403
      \<or> getprop err ''status'' = JStr ''PERMISSION_DENIED''
      \<or> getprop err ''code'' = JNum 404
      \<or> getprop err ''status'' = JStr ''NOT_FOUND''
      \<or> getprop err ''code'' = JNum 400
      \<or> (case getprop err ''message'' of JStr t \<Rightarrow> includes_str t ''quota'' | _ \<Rightarrow> False))"

definition refusal_text :: "part list \<Rightarrow> string" where
  \<comment> \<open>the texts of the parts, in order\<close>
  "refusal_text ps = concat (map (\<lambda>p. case part_text p of Some t \<Rightarrow> t | None \<Rightarrow> []) ps)"

definition counting_client :: "(string \<Rightarrow> 's genai) \<Rightarrow> string \<Rightarrow> 's probe genai" where
  \<comment> \<open>a client on the counting state: each backend call advances \<open>invocations\<close>\<close>
  "counting_client GoogleGenAI apiKey =
     \<lparr>generateContent = (\<lambda>request. counted (generateContent (GoogleGenAI apiKey) request))\<rparr>"

definition idle_veo :: "string \<Rightarrow> world veo" where
  \<comment> \<open>a video backend that never answers\<close>
  "idle_veo apiKey = \<lparr>generateVideos = (\<lambda>request s. None), getVideosOperation = (\<lambda>operation s. None)\<rparr>"

definition idle_web :: "world web" where
  "idle_web =
     \<lparr>setTimeout = (\<lambda>ms s. s), fetch = (\<lambda>url s. None), blob = (\<lambda>res s. None),
      createObjectURL = (\<lambda>b s. ([], s))\<rparr>"

definition image_response :: "string \<Rightarrow> response" where
  \<comment> \<open>a response whose first candidate holds a text part and then an image part\<close>
  "image_response payload =
     \<lparr>candidates = Some
        [\<lparr>content_parts = Some (Some
            [\<lparr>inlineData = None, part_text = Some ''Here is your image.''\<rparr>,
             \<lparr>inlineData = Some \<lparr>mimeType = Some ''image/jpeg'', data = Some payload\<rparr>,
              part_text = None\<rparr>])\<rparr>]\<rparr>"

definition pro_rejecting :: "failure \<Rightarrow> content_request \<Rightarrow> failure + response" where
  \<comment> \<open>a backend on which the Pro model rejects with the given value and the Flash model
      answers\<close>
  "pro_rejecting reason request =
     (if model request = ''gemini-2.5-flash-image'' then Inr (image_response ''iVBORw0KGgo='')
      else Inl reason)"

definition flash_only :: "content_request \<Rightarrow> failure + response" where
  \<comment> \<open>a backend on which the Pro model is unavailable and the Flash model answers\<close>
  "flash_only request =
     (if model request = ''gemini-2.5-flash-image'' then Inr (image_response ''iVBORw0KGgo='')
      else Inl (api_error ''403 PERMISSION_DENIED''))"

section \<open>Strings\<close>

lemma includes_str_sublist: "includes_str s p \<longleftrightarrow> sublist p s"
  by (induction s) (auto simp: sublist_Cons_right)

lemma indexOf_range: "indexOf s p = - 1 \<or> (0 \<le> indexOf s p \<and> indexOf s p \<le> int (length s))"
  by (induction s) (auto simp: Let_def)

lemma indexOf_none: "indexOf s p = - 1 \<longleftrightarrow> \<not> includes_str s p"
proof (induction s)
  case Nil
  show ?case by simp
next
  case (Cons c cs)
  from indexOf_range[of cs p] Cons show ?case by (auto simp: Let_def)
qed

lemma lastIndexOf_range:
  "lastIndexOf s p = - 1 \<or> (0 \<le> lastIndexOf s p \<and> lastIndexOf s p \<le> int (length s))"
  by (induction s) (auto simp: Let_def)

lemma lastIndexOf_none: "lastIndexOf s p = - 1 \<longleftrightarrow> \<not> includes_str s p"
proof (induction s)
  case Nil
  show ?case by simp
next
  case (Cons c cs)
  from lastIndexOf_range[of cs p] Cons show ?case by (auto simp: Let_def)
qed

lemma any_includes_JStr:
  "any_includes (JStr m) ps = Some (\<exists>p \<in> set ps. includes_str m p)"
  by (induction ps) (auto split: bool.splits)

section \<open>What classification can throw\<close>

text \<open>
  When step 2 leaves \<open>isPermissionError\<close> false for a message text, the working message is
  a string or an array, so the \<open>includes\<close> calls of step 3 are defined. Steps 1 to 3
  therefore throw in two cases only: \<open>JSON.stringify\<close> throws on the caught object, or it
  returns \<open>undefined\<close> and \<open>msg.includes\<close> is read of \<open>undefined\<close>.
\<close>

lemma parse_json_message_shape:
  "parse_json_message parse msg = (False, m) \<Longrightarrow> (\<exists>t. m = JStr t) \<or> (\<exists>xs. m = JArr xs)"
  unfolding parse_json_message_def descriptor_matches_def Let_def
  by (auto split: if_splits option.splits elim: includes_val.elims)

lemma any_includes_defined:
  "(\<exists>t. m = JStr t) \<or> (\<exists>xs. m = JArr xs) \<Longrightarrow> any_includes m ps \<noteq> None"
  by (induction ps) (auto split: option.splits bool.splits)

lemma any_includes_JArr:
  "any_includes (JArr xs) ps = Some (\<exists>p \<in> set ps. JStr p \<in> set xs)"
  by (induction ps) (auto split: bool.splits)

lemma classify_text:
  assumes "extract_message error = Inr (JStr text)"
  shows "classify P error = Inr (retryable P error, working_message P error)"
proof -
  obtain found m where step: "parse_json_message (JSON_parse P) text = (found, m)"
    by (cases "parse_json_message (JSON_parse P) text") auto
  show ?thesis
  proof (cases found)
    case True
    with assms step show ?thesis
      by (simp add: classify_def retryable_def working_message_def json_step_def)
  next
    case False
    with step have "any_includes m fallback_patterns \<noteq> None"
      by (auto dest!: parse_json_message_shape any_includes_defined)
    then obtain b where "any_includes m fallback_patterns = Some b" by auto
    with assms step False show ?thesis
      by (simp add: classify_def retryable_def working_message_def json_step_def)
  qed
qed

lemma working_message_defined:
  assumes "extract_message error = Inr (JStr text)"
  shows "working_message P error \<noteq> JUndefined"
  using assms
  by (auto simp: working_message_def json_step_def parse_json_message_def Let_def
        split: option.splits if_splits)

lemma classify_throws:
  "classify P error = Inl thrown \<longleftrightarrow>
     error = ThrowingObject thrown
     \<or> error = SilentObject \<and> thrown = TypeError P (ReadProperty JUndefined ''includes'')"
proof (cases error)
  case SilentObject
  have "any_includes JUndefined fallback_patterns = None"
    by (simp add: fallback_patterns_def)
  with SilentObject show ?thesis
    by (auto simp: classify_def extract_message_def json_step_def includes_fault_def)
next
  case (ThrowingObject x)
  then show ?thesis by (auto simp: classify_def extract_message_def)
qed (use classify_text[of error _ P] in \<open>auto simp: extract_message_def\<close>)

lemma classify_retryable:
  "retryable P error \<Longrightarrow> classify P error = Inr (True, working_message P error)"
  by (cases error)
     (auto simp: retryable_def working_message_def classify_def extract_message_def Let_def
           split: sum.splits prod.splits option.splits if_splits)

section \<open>The paths through the gateway\<close>

lemma run_pending:
  "operation s = None \<Longrightarrow> runWithAuthRetry P operation requireAuth s = None"
  by (simp add: runWithAuthRetry_def try_catch_def)

lemma run_first_success:
  "operation s = Some (Inr x, s1) \<Longrightarrow> runWithAuthRetry P operation requireAuth s = Some (Inr x, s1)"
  by (simp add: runWithAuthRetry_def try_catch_def)

lemma run_final_throw:
  assumes "operation s = Some (Inl error, s1)"
    and "\<not> retryable P error \<or> \<not> requireAuth \<or> openSelectKey P s1 = None"
  shows "runWithAuthRetry P operation requireAuth s = Some (Inl (reported P error), s1)"
  using assms
  by (auto simp: runWithAuthRetry_def try_catch_def throw_def reported_def retryable_def
           split: sum.splits prod.splits)

lemma run_retry:
  assumes "operation s = Some (Inl error, s1)"
    and "retryable P error" and "requireAuth"
    and "openSelectKey P s1 = Some selectKey"
  shows "runWithAuthRetry P operation requireAuth s =
           try_catch (await selectKey (\<lambda>_. operation))
             (\<lambda>retryError. throw (new_Error connection_failed))
             (console_warn P [Text prompt_warning] s1)"
  using assms classify_retryable[of P error]
  by (simp add: runWithAuthRetry_def try_catch_def)

lemma gateway_run:
  "runWithAuthRetry P operation requireAuth s =
     (case operation s of
        None \<Rightarrow> None
      | Some (Inr x, s1) \<Rightarrow> Some (Inr x, s1)
      | Some (Inl error, s1) \<Rightarrow>
          (if retryable P error \<and> requireAuth then
             (case openSelectKey P s1 of
                None \<Rightarrow> Some (Inl (reported P error), s1)
              | Some selectKey \<Rightarrow>
                  (case selectKey (console_warn P [Text prompt_warning] s1) of
                     None \<Rightarrow> None
                   | Some (Inl e, s2) \<Rightarrow> Some (Inl (new_Error connection_failed), s2)
                   | Some (Inr u, s2) \<Rightarrow>
                       (case operation s2 of
                          None \<Rightarrow> None
                        | Some (Inl e, s3) \<Rightarrow> Some (Inl (new_Error connection_failed), s3)
                        | Some (Inr x, s3) \<Rightarrow> Some (Inr x, s3))))
           else Some (Inl (reported P error), s1)))"
proof (cases "operation s")
  case None
  then show ?thesis by (simp add: run_pending)
next
  case (Some a)
  then obtain r s1 where op: "operation s = Some (r, s1)" by (cases a) auto
  show ?thesis
  proof (cases r)
    case (Inr x)
    with op run_first_success[of operation s x s1 P requireAuth] show ?thesis by simp
  next
    case (Inl error)
    with op have c: "operation s = Some (Inl error, s1)" by simp
    show ?thesis
    proof (cases "retryable P error \<and> requireAuth \<and> openSelectKey P s1 \<noteq> None")
      case False
      then have "\<not> retryable P error \<or> \<not> requireAuth \<or> openSelectKey P s1 = None" by auto
      from run_final_throw[of operation s, OF c this] False c show ?thesis by auto
    next
      case True
      then obtain selectKey where k: "openSelectKey P s1 = Some selectKey" by auto
      from run_retry[of operation s, OF c _ _ k] True
      have "runWithAuthRetry P operation requireAuth s =
              try_catch (await selectKey (\<lambda>_. operation))
                (\<lambda>retryError. throw (new_Error connection_failed))
                (console_warn P [Text prompt_warning] s1)"
        by simp
      with True k c show ?thesis
        by (auto simp: try_catch_def await_def throw_def split: option.splits sum.splits prod.splits)
    qed
  qed
qed

text \<open>
  The gateway settles whenever the operation and the credential prompt do: it has no loop
  of its own.
\<close>

lemma gateway_settles:
  assumes "\<And>s. operation s \<noteq> None"
    and "\<And>s selectKey s'. openSelectKey P s = Some selectKey \<Longrightarrow> selectKey s' \<noteq> None"
  shows "runWithAuthRetry P operation requireAuth s \<noteq> None"
proof -
  have op: "\<exists>r s'. operation t = Some (r, s')" for t
    using assms(1)[of t] by auto
  have key: "\<exists>r s'. selectKey t' = Some (r, s')" if "openSelectKey P t = Some selectKey"
    for t selectKey t'
    using assms(2)[OF that, of t'] by auto
  obtain r s1 where first: "operation s = Some (r, s1)" using op by blast
  show ?thesis
  proof (cases r)
    case (Inr x)
    with first show ?thesis by (simp add: gateway_run)
  next
    case (Inl error)
    show ?thesis
    proof (cases "openSelectKey P s1")
      case None
      with first Inl show ?thesis by (simp add: gateway_run)
    next
      case (Some selectKey)
      obtain a s2 where sel: "selectKey (console_warn P [Text prompt_warning] s1) = Some (a, s2)"
        using key[OF Some] by blast
      obtain b s3 where again: "operation s2 = Some (b, s3)" using op by blast
      from first Inl Some sel again show ?thesis
        by (cases a; cases b) (simp_all add: gateway_run)
    qed
  qed
qed

section \<open>The gateway on the counting state\<close>

lemma probed_fields [simp]:
  "JSON_parse (probed P) = JSON_parse P"
  "Number_toString (probed P) = Number_toString P"
  "TypeError_text (probed P) = TypeError_text P"
  "console_warn (probed P) args p = p\<lparr>inner := console_warn P args (inner p)\<rparr>"
  by (simp_all add: probed_def)

lemma probed_openSelectKey:
  "openSelectKey (probed P) p =
     (case openSelectKey P (inner p) of
        None \<Rightarrow> None
      | Some selectKey \<Rightarrow>
          Some (\<lambda>p. case selectKey (inner p) of
                      None \<Rightarrow> None
                    | Some (r, s') \<Rightarrow> Some (r, p\<lparr>prompts := Suc (prompts p), inner := s'\<rparr>)))"
  by (simp add: probed_def)

lemma TypeError_probed [simp]: "TypeError (probed P) f = TypeError P f"
  by (simp add: TypeError_def)

lemma construct_Error_probed [simp]: "construct_Error (probed P) msg = construct_Error P msg"
  by (simp add: construct_Error_def split: option.splits)

lemma classify_probed [simp]: "classify (probed P) error = classify P error"
  by (auto simp: classify_def Let_def split: sum.splits prod.splits option.splits)

lemma retryable_probed [simp]: "retryable (probed P) error = retryable P error"
  by (simp add: retryable_def)

lemma reported_probed [simp]: "reported (probed P) error = reported P error"
  by (simp add: reported_def split: sum.splits prod.splits)

lemma probed_run:
  "runWithAuthRetry (probed P) (counted operation) requireAuth (probe0 s) =
     (case operation s of
        None \<Rightarrow> None
      | Some (Inr x, s1) \<Rightarrow> Some (Inr x, \<lparr>invocations = 1, prompts = 0, inner = s1\<rparr>)
      | Some (Inl error, s1) \<Rightarrow>
          (if retryable P error \<and> requireAuth then
             (case openSelectKey P s1 of
                None \<Rightarrow> Some (Inl (reported P error), \<lparr>invocations = 1, prompts = 0, inner = s1\<rparr>)
              | Some selectKey \<Rightarrow>
                  (case selectKey (console_warn P [Text prompt_warning] s1) of
                     None \<Rightarrow> None
                   | Some (Inl e, s2) \<Rightarrow>
                       Some (Inl (new_Error connection_failed), \<lparr>invocations = 1, prompts = 1, inner = s2\<rparr>)
                   | Some (Inr u, s2) \<Rightarrow>
                       (case operation s2 of
                          None \<Rightarrow> None
                        | Some (Inl e, s3) \<Rightarrow>
                            Some (Inl (new_Error connection_failed), \<lparr>invocations = 2, prompts = 1, inner = s3\<rparr>)
                        | Some (Inr x, s3) \<Rightarrow>
                            Some (Inr x, \<lparr>invocations = 2, prompts = 1, inner = s3\<rparr>))))
           else Some (Inl (reported P error), \<lparr>invocations = 1, prompts = 0, inner = s1\<rparr>)))"
proof (cases "operation s")
  case None
  then show ?thesis by (simp add: run_pending counted_def probe0_def)
next
  case (Some a)
  then obtain r s1 where op: "operation s = Some (r, s1)" by (cases a) auto
  show ?thesis
  proof (cases r)
    case (Inr x)
    with op have "counted operation (probe0 s) = Some (Inr x, \<lparr>invocations = 1, prompts = 0, inner = s1\<rparr>)"
      by (simp add: counted_def probe0_def)
    from run_first_success[of "counted operation" "probe0 s", OF this] op Inr show ?thesis by simp
  next
    case (Inl error)
    with op have c: "counted operation (probe0 s) = Some (Inl error, \<lparr>invocations = 1, prompts = 0, inner = s1\<rparr>)"
      by (simp add: counted_def probe0_def)
    show ?thesis
    proof (cases "retryable P error \<and> requireAuth \<and> openSelectKey P s1 \<noteq> None")
      case False
      then have "\<not> retryable (probed P) error \<or> \<not> requireAuth
          \<or> openSelectKey (probed P) \<lparr>invocations = 1, prompts = 0, inner = s1\<rparr> = None"
        by (auto simp: probed_openSelectKey)
      from run_final_throw[of "counted operation" "probe0 s", OF c this] False op Inl show ?thesis by auto
    next
      case True
      then obtain selectKey where k: "openSelectKey P s1 = Some selectKey" by auto
      let ?k = "\<lambda>p. case selectKey (inner p) of
                      None \<Rightarrow> None
                    | Some (r, s') \<Rightarrow> Some (r, p\<lparr>prompts := Suc (prompts p), inner := s'\<rparr>)"
      have "openSelectKey (probed P) \<lparr>invocations = 1, prompts = 0, inner = s1\<rparr> = Some ?k"
        by (simp add: probed_openSelectKey k)
      from run_retry[of "counted operation" "probe0 s", OF c _ _ this] True
      have "runWithAuthRetry (probed P) (counted operation) requireAuth (probe0 s) =
              try_catch (await ?k (\<lambda>_. counted operation))
                (\<lambda>retryError. throw (new_Error connection_failed))
                (console_warn (probed P) [Text prompt_warning] \<lparr>invocations = 1, prompts = 0, inner = s1\<rparr>)"
        by simp
      with True k op Inl show ?thesis
        by (auto simp: try_catch_def await_def throw_def counted_def
                 split: option.splits sum.splits prod.splits)
    qed
  qed
qed

text \<open>
  The counters only observe: forgetting them gives back the run on the plain state.
\<close>

lemma probed_run_erased:
  "map_option (\<lambda>(outcome, p). (outcome, inner p))
     (runWithAuthRetry (probed P) (counted operation) requireAuth (probe0 s))
   = runWithAuthRetry P operation requireAuth s"
  unfolding probed_run[of P operation requireAuth s] gateway_run[of P operation requireAuth s]
  by (auto split: option.splits sum.splits prod.splits)

section \<open>Evaluating the examples\<close>

lemmas gateway_defs =
  runWithAuthRetry_def try_catch_def await_def throw_def classify_def extract_message_def
  json_step_def parse_json_message_def fallback_patterns_def retryable_def working_message_def
  reported_def construct_Error_def TypeError_def includes_fault_def

lemmas host_defs =
  browser_def scripted_def fresh_def api_error_def probed_def counted_def probe0_def
  fault_text_def

lemma forbidden_retryable: "retryable (browser studio) (api_error ''403 Forbidden'')"
  by (simp add: gateway_defs host_defs)

lemma connection_failed_not_retryable:
  "extract_message error = Inr (JStr connection_failed) \<Longrightarrow> \<not> retryable P error"
  by (simp add: retryable_def classify_def json_step_def parse_json_message_def
        connection_failed_def fallback_patterns_def)

lemma no_json_no_pattern:
  assumes "extract_message error = Inr (JStr msg)"
    and "\<not> includes_str msg ''{''
         \<or> \<not> includes_str msg ''}''
         \<or> JSON_parse P (substring msg (indexOf msg ''{'') (lastIndexOf msg ''}'' + 1)) = None"
    and "\<forall>p \<in> set fallback_patterns. \<not> includes_str msg p"
  shows "classify P error = Inr (False, JStr msg)"
  using assms
  by (auto simp: classify_def json_step_def parse_json_message_def Let_def indexOf_none
        lastIndexOf_none any_includes_JStr)

lemma parse_json_message_embedded:
  "parse_json_message parse msg =
     (case embedded_error parse msg of
        None \<Rightarrow> (False, JStr msg)
      | Some err \<Rightarrow>
          (case descriptor_matches err of
             None \<Rightarrow> (False, JStr msg)
           | Some b \<Rightarrow>
               (b, if truthy (getprop err ''message'') then getprop err ''message'' else JStr msg)))"
  by (auto simp: parse_json_message_def embedded_error_def Let_def indexOf_none lastIndexOf_none
           split: option.splits)

lemmas reader_defs =
  read_json_def is_digit_def lex_number_def digits_val_def digit_val_def
  simple_escape_def unicode_escape_def hex_val_def

section \<open>Claims about the gateway\<close>

text \<open>
  Claim C4. In every call of \<open>runWithAuthRetry\<close> that settles, the operation has been
  invoked once or twice and the credential prompt at most once. If the first invocation
  succeeds, its result is returned after exactly one invocation and no prompt, in the state
  the operation left. If the operation was invoked twice, exactly one prompt took place,
  and a failure of that second invocation ends the call with the fixed failure: it is not
  classified, prompted for or retried. A call that never settles hangs in the first
  invocation, in the one prompt, or in the second invocation.
\<close>

theorem gateway_at_most_one_retry:
  "(\<forall>outcome p.
      runWithAuthRetry (probed P) (counted operation) requireAuth (probe0 s) = Some (outcome, p) \<longrightarrow>
        1 \<le> invocations p \<and> invocations p \<le> 2 \<and> prompts p \<le> 1
      \<and> (\<forall>x s1. operation s = Some (Inr x, s1) \<longrightarrow>
            outcome = Inr x \<and> invocations p = 1 \<and> prompts p = 0 \<and> inner p = s1)
      \<and> (invocations p = 2 \<longrightarrow>
            prompts p = 1 \<and> (\<forall>e. outcome = Inl e \<longrightarrow> e = new_Error connection_failed)))
   \<and> (runWithAuthRetry (probed P) (counted operation) requireAuth (probe0 s) = None \<longrightarrow>
        operation s = None
      \<or> (\<exists>error s1 selectKey.
            operation s = Some (Inl error, s1) \<and> openSelectKey P s1 = Some selectKey
          \<and> (selectKey (console_warn P [Text prompt_warning] s1) = None
             \<or> (\<exists>s2. selectKey (console_warn P [Text prompt_warning] s1) = Some (Inr (), s2)
                    \<and> operation s2 = None))))"
proof (intro conjI allI impI)
  fix outcome p
  assume run: "runWithAuthRetry (probed P) (counted operation) requireAuth (probe0 s) = Some (outcome, p)"
  then show "1 \<le> invocations p" and "invocations p \<le> 2" and "prompts p \<le> 1"
    unfolding probed_run[of P operation requireAuth s]
    by (auto split: option.splits sum.splits prod.splits if_splits)
  from run show "outcome = Inr x" and "invocations p = 1" and "prompts p = 0" and "inner p = s1"
    if "operation s = Some (Inr x, s1)" for x s1
    using that unfolding probed_run[of P operation requireAuth s]
    by auto
  from run show "prompts p = 1" if "invocations p = 2"
    using that unfolding probed_run[of P operation requireAuth s]
    by (auto split: option.splits sum.splits prod.splits if_splits)
  from run show "e = new_Error connection_failed" if "invocations p = 2" and "outcome = Inl e" for e
    using that unfolding probed_run[of P operation requireAuth s]
    by (auto split: option.splits sum.splits prod.splits if_splits)
next
  assume "runWithAuthRetry (probed P) (counted operation) requireAuth (probe0 s) = None"
  then show "operation s = None
      \<or> (\<exists>error s1 selectKey.
            operation s = Some (Inl error, s1) \<and> openSelectKey P s1 = Some selectKey
          \<and> (selectKey (console_warn P [Text prompt_warning] s1) = None
             \<or> (\<exists>s2. selectKey (console_warn P [Text prompt_warning] s1) = Some (Inr (), s2)
                    \<and> operation s2 = None)))"
    unfolding probed_run[of P operation requireAuth s]
    by (auto split: option.splits sum.splits prod.splits if_splits)
qed

theorem gateway_at_most_one_retry_witness:
  "runWithAuthRetry (probed (browser (Some (Inr ()))))
     (counted (scripted [Inl (api_error ''403 Forbidden''), Inr ''image'']))
     True (probe0 fresh)
   = Some (Inr ''image'',
       \<lparr>invocations = 2, prompts = 1,
        inner = \<lparr>invoked = 2, prompted = 1, console = [ [Text prompt_warning] ]\<rparr>\<rparr>)
   \<and> runWithAuthRetry (probed (browser (Some (Inr ()))))
     (counted (scripted [Inl (api_error ''403 Forbidden'') :: failure + string]))
     True (probe0 fresh) = None
   \<and> scripted [Inl (api_error ''403 Forbidden'') :: failure + string]
       \<lparr>invoked = 1, prompted = 1, console = [ [Text prompt_warning] ]\<rparr> = None"
proof -
  let ?B = "browser (Some (Inr ()))"
  have settled: "runWithAuthRetry (probed ?B)
     (counted (scripted [Inl (api_error ''403 Forbidden''), Inr ''image'']))
     True (probe0 fresh)
   = Some (Inr ''image'',
       \<lparr>invocations = 2, prompts = 1,
        inner = \<lparr>invoked = 2, prompted = 1, console = [ [Text prompt_warning] ]\<rparr>\<rparr>)"
    by (simp add: gateway_defs host_defs)
  have pending: "runWithAuthRetry (probed ?B)
     (counted (scripted [Inl (api_error ''403 Forbidden'') :: failure + string]))
     True (probe0 fresh) = None"
    by (simp add: gateway_defs host_defs)
  have hangs: "scripted [Inl (api_error ''403 Forbidden'') :: failure + string]
       \<lparr>invoked = 1, prompted = 1, console = [ [Text prompt_warning] ]\<rparr> = None"
    by (simp add: scripted_def)
  from gateway_at_most_one_retry[of ?B "scripted [Inl (api_error ''403 Forbidden''), Inr ''image'']" True fresh]
       gateway_at_most_one_retry[of ?B "scripted [Inl (api_error ''403 Forbidden'') :: failure + string]" True fresh]
       settled pending hangs
  show ?thesis by simp
qed

text \<open>
  Claim C1, as the code has it. For a retryable failure with prompting enabled and the
  collaborator available, once the credential-selection flow has completed successfully
  the operation is invoked exactly once more. A result of that second attempt is returned
  as it is; a failure of the second attempt is replaced by the fixed failure
  \<open>Connection failed. Please select a valid API Key.\<close>
\<close>

theorem retry_after_selection:
  assumes "operation s = Some (Inl error, s1)"
    and "retryable P error"
    and "openSelectKey P s1 = Some selectKey"
    and "selectKey (console_warn P [Text prompt_warning] s1) = Some (Inr u, s2)"
  shows "runWithAuthRetry P operation True s =
           (case operation s2 of
              None \<Rightarrow> None
            | Some (Inr x, s3) \<Rightarrow> Some (Inr x, s3)
            | Some (Inl retryError, s3) \<Rightarrow> Some (Inl (new_Error connection_failed), s3))
       \<and> runWithAuthRetry (probed P) (counted operation) True (probe0 s) =
           (case operation s2 of
              None \<Rightarrow> None
            | Some (Inr x, s3) \<Rightarrow> Some (Inr x, \<lparr>invocations = 2, prompts = 1, inner = s3\<rparr>)
            | Some (Inl retryError, s3) \<Rightarrow>
                Some (Inl (new_Error connection_failed), \<lparr>invocations = 2, prompts = 1, inner = s3\<rparr>))"
  using assms probed_run[of P operation True s] gateway_run[of P operation True s]
  by (auto split: option.splits sum.splits prod.splits)

theorem retry_after_selection_witness:
  "runWithAuthRetry (browser (Some (Inr ())))
     (scripted [Inl (api_error ''403 Forbidden''), Inr ''image'']) True fresh
   = Some (Inr ''image'', \<lparr>invoked = 2, prompted = 1, console = [ [Text prompt_warning] ]\<rparr>)"
proof -
  let ?op = "scripted [Inl (api_error ''403 Forbidden''), Inr ''image''] :: (world, string) async"
  let ?s1 = "\<lparr>invoked = 1, prompted = 0, console = []\<rparr>"
  let ?s2 = "\<lparr>invoked = 1, prompted = 1, console = [ [Text prompt_warning] ]\<rparr>"
  let ?key = "\<lambda>s. Some (Inr (), s\<lparr>prompted := Suc (prompted s)\<rparr>) :: ((failure + unit) \<times> world) option"
  have first: "?op fresh = Some (Inl (api_error ''403 Forbidden''), ?s1)"
    by (simp add: host_defs)
  have available: "openSelectKey (browser (Some (Inr ()))) ?s1 = Some ?key"
    by (simp add: host_defs)
  have selected: "?key (console_warn (browser (Some (Inr ()))) [Text prompt_warning] ?s1) = Some (Inr (), ?s2)"
    by (simp add: host_defs)
  have second: "?op ?s2 = Some (Inr ''image'', \<lparr>invoked = 2, prompted = 1, console = [ [Text prompt_warning] ]\<rparr>)"
    by (simp add: host_defs)
  from retry_after_selection[where operation = ?op and s = fresh,
      OF first forbidden_retryable available selected] second
  show ?thesis by simp
qed

text \<open>
  Claim C1 as stated fails: here the second attempt fails with \<open>500 Internal\<close>, and the
  gateway does not return that failure but the fixed one.
\<close>

theorem retried_failure_is_replaced:
  "retryable (browser (Some (Inr ()))) (api_error ''403 Forbidden'')
   \<and> scripted [Inl (api_error ''403 Forbidden''), Inl (api_error ''500 Internal'')]
       \<lparr>invoked = 1, prompted = 1, console = [ [Text prompt_warning] ]\<rparr>
     = Some (Inl (api_error ''500 Internal'') :: failure + string,
         \<lparr>invoked = 2, prompted = 1, console = [ [Text prompt_warning] ]\<rparr>)
   \<and> runWithAuthRetry (browser (Some (Inr ())))
       (scripted [Inl (api_error ''403 Forbidden''), Inl (api_error ''500 Internal'')]) True fresh
     = Some (Inl (new_Error connection_failed) :: failure + string,
         \<lparr>invoked = 2, prompted = 1, console = [ [Text prompt_warning] ]\<rparr>)
   \<and> extract_message (new_Error connection_failed) \<noteq> extract_message (api_error ''500 Internal'')"
  by (simp add: gateway_defs host_defs new_Error_def connection_failed_def)

text \<open>
  Claim C5. For a retryable failure with prompting enabled and the collaborator
  available, if the credential-selection flow rejects, the gateway fails with the fixed
  message \<open>Connection failed. Please select a valid API Key.\<close>, which is not the message
  extracted from the original failure, and the operation has been invoked once only.
\<close>

theorem failed_selection_fixed_failure:
  assumes "operation s = Some (Inl error, s1)"
    and "retryable P error"
    and "openSelectKey P s1 = Some selectKey"
    and "selectKey (console_warn P [Text prompt_warning] s1) = Some (Inl rejection, s2)"
  shows "runWithAuthRetry P operation True s = Some (Inl (new_Error connection_failed), s2)
       \<and> runWithAuthRetry (probed P) (counted operation) True (probe0 s) =
           Some (Inl (new_Error connection_failed), \<lparr>invocations = 1, prompts = 1, inner = s2\<rparr>)
       \<and> extract_message error \<noteq> Inr (JStr connection_failed)"
  using assms connection_failed_not_retryable[of error P]
    probed_run[of P operation True s] gateway_run[of P operation True s]
  by auto

theorem failed_selection_fixed_failure_witness:
  "runWithAuthRetry (browser (Some (Inl (Primitive ''dismissed''))))
     (scripted [Inl (api_error ''403 Forbidden''), Inr ''image'']) True fresh
   = Some (Inl (new_Error connection_failed),
       \<lparr>invoked = 1, prompted = 1, console = [ [Text prompt_warning] ]\<rparr>)
   \<and> extract_message (api_error ''403 Forbidden'') \<noteq> Inr (JStr connection_failed)"
proof -
  let ?B = "browser (Some (Inl (Primitive ''dismissed'')))"
  let ?op = "scripted [Inl (api_error ''403 Forbidden''), Inr ''image''] :: (world, string) async"
  let ?s1 = "\<lparr>invoked = 1, prompted = 0, console = []\<rparr>"
  let ?s2 = "\<lparr>invoked = 1, prompted = 1, console = [ [Text prompt_warning] ]\<rparr>"
  let ?key = "\<lambda>s. Some (Inl (Primitive ''dismissed''), s\<lparr>prompted := Suc (prompted s)\<rparr>)
                :: ((failure + unit) \<times> world) option"
  have first: "?op fresh = Some (Inl (api_error ''403 Forbidden''), ?s1)"
    by (simp add: host_defs)
  have available: "openSelectKey ?B ?s1 = Some ?key"
    by (simp add: host_defs)
  have rejected: "?key (console_warn ?B [Text prompt_warning] ?s1) = Some (Inl (Primitive ''dismissed''), ?s2)"
    by (simp add: host_defs)
  from failed_selection_fixed_failure[where operation = ?op and s = fresh,
      OF first forbidden_retryable available rejected]
  show ?thesis by simp
qed

text \<open>
  Claim C6. For a failure whose extracted message embeds no parseable JSON (it lacks a
  \<open>{\<close> or a \<open>}\<close>, or \<open>JSON.parse\<close> rejects the fragment between the first \<open>{\<close> and the last
  \<open>}\<close>) and contains none of the ten fallback patterns, the gateway fails with a new
  \<open>Error\<close> of exactly that message, in the state the first invocation left: one invocation
  of the operation, no credential prompt. This holds whatever \<open>requireAuthPrompt\<close> is.
\<close>

theorem unmatched_failure_fails_immediately:
  assumes "operation s = Some (Inl error, s1)"
    and "extract_message error = Inr (JStr msg)"
    and "\<not> includes_str msg ''{''
         \<or> \<not> includes_str msg ''}''
         \<or> JSON_parse P (substring msg (indexOf msg ''{'') (lastIndexOf msg ''}'' + 1)) = None"
    and "\<forall>p \<in> set fallback_patterns. \<not> includes_str msg p"
  shows "runWithAuthRetry P operation requireAuth s = Some (Inl (new_Error msg), s1)
       \<and> runWithAuthRetry (probed P) (counted operation) requireAuth (probe0 s) =
           Some (Inl (new_Error msg), \<lparr>invocations = 1, prompts = 0, inner = s1\<rparr>)"
  using assms(1) no_json_no_pattern[OF assms(2,3,4)]
    probed_run[of P operation requireAuth s] gateway_run[of P operation requireAuth s]
  by (simp add: retryable_def reported_def construct_Error_def)

theorem unmatched_failure_fails_immediately_witness:
  "runWithAuthRetry (browser (Some (Inr ())))
     (scripted [Inl (api_error ''connection reset''), Inr ''image'']) True fresh
   = Some (Inl (new_Error ''connection reset''), \<lparr>invoked = 1, prompted = 0, console = []\<rparr>)"
proof -
  let ?op = "scripted [Inl (api_error ''connection reset''), Inr ''image''] :: (world, string) async"
  have first: "?op fresh = Some (Inl (api_error ''connection reset''),
      \<lparr>invoked = 1, prompted = 0, console = []\<rparr>)"
    by (simp add: host_defs)
  have message: "extract_message (api_error ''connection reset'') = Inr (JStr ''connection reset'')"
    by (simp add: api_error_def extract_message_def)
  have no_json: "\<not> includes_str ''connection reset'' ''{''
         \<or> \<not> includes_str ''connection reset'' ''}''
         \<or> JSON_parse (browser (Some (Inr ()))) (substring ''connection reset''
               (indexOf ''connection reset'' ''{'')
               (lastIndexOf ''connection reset'' ''}'' + 1)) = None"
    by simp
  have no_pattern: "\<forall>p \<in> set fallback_patterns. \<not> includes_str ''connection reset'' p"
    by (simp add: fallback_patterns_def)
  from unmatched_failure_fails_immediately[where operation = ?op and s = fresh
      and P = "browser (Some (Inr ()))" and requireAuth = True,
      OF first message no_json no_pattern]
  show ?thesis by simp
qed

text \<open>
  Claim C10, as the code has it. Whenever the gateway fails, the operation's first
  invocation failed. When a retry was started (retryable failure, prompting enabled,
  collaborator available), the gateway throws a new \<open>Error\<close> with the fixed message
  \<open>Connection failed. Please select a valid API Key.\<close> Otherwise it fails in the state the
  first invocation left, and, provided the extracted message is a text (as it is unless
  \<open>JSON.stringify\<close> throws or returns nothing for a caught object) and the working message
  has a string conversion, it throws a new plain \<open>Error\<close> whose message is that conversion
  of the working message. In both cases the thrown value is newly constructed and carries
  neither the constructor name nor the fields of the caught value.
\<close>

theorem gateway_throws_new_error:
  assumes "runWithAuthRetry P operation requireAuth s = Some (Inl thrown, s')"
  shows "\<exists>error s1. operation s = Some (Inl error, s1)
       \<and> (if retryable P error \<and> requireAuth \<and> openSelectKey P s1 \<noteq> None
          then thrown = new_Error connection_failed
          else s' = s1
             \<and> (\<forall>t m. extract_message error = Inr (JStr t)
                   \<and> ToString (Number_toString P) (working_message P error) = Some m
                   \<longrightarrow> thrown = new_Error m))"
proof -
  from assms obtain error s1 where first: "operation s = Some (Inl error, s1)"
    unfolding gateway_run[of P operation requireAuth s]
    by (auto split: option.splits sum.splits prod.splits)
  have plain: "reported P error = new_Error m"
    if "extract_message error = Inr (JStr t)"
      and "ToString (Number_toString P) (working_message P error) = Some m" for t m
    using that classify_text[OF that(1), of P] working_message_defined[OF that(1), of P]
    by (simp add: reported_def construct_Error_def)
  from assms first have
    "if retryable P error \<and> requireAuth \<and> openSelectKey P s1 \<noteq> None
     then thrown = new_Error connection_failed
     else s' = s1 \<and> thrown = reported P error"
    unfolding gateway_run[of P operation requireAuth s]
    by (auto split: option.splits sum.splits prod.splits if_splits)
  with first plain show ?thesis by (auto split: if_splits)
qed

theorem gateway_throws_new_error_witness:
  "runWithAuthRetry (browser (Some (Inr ())))
     (scripted
        [Inl (ErrorObject \<lparr>name = ''ApiError'', message = ''connection reset'',
                            details = [(''status'', JNum 503)]\<rparr>) :: failure + string])
     True fresh
   = Some (Inl (new_Error ''connection reset''), \<lparr>invoked = 1, prompted = 0, console = []\<rparr>)
   \<and> new_Error ''connection reset''
     \<noteq> ErrorObject \<lparr>name = ''ApiError'', message = ''connection reset'',
                      details = [(''status'', JNum 503)]\<rparr>
   \<and> runWithAuthRetry (browser (Some (Inr ())))
     (scripted [Inl (api_error ''404 NOT_FOUND''), Inl (api_error ''404 NOT_FOUND'') :: failure + string])
     True fresh
   = Some (Inl (new_Error connection_failed),
       \<lparr>invoked = 2, prompted = 1, console = [ [Text prompt_warning] ]\<rparr>)"
proof -
  let ?e = "ErrorObject \<lparr>name = ''ApiError'', message = ''connection reset'',
                          details = [(''status'', JNum 503)]\<rparr>"
  have run: "runWithAuthRetry (browser (Some (Inr ()))) (scripted [Inl ?e :: failure + string])
     True fresh
   = Some (Inl (new_Error ''connection reset''), \<lparr>invoked = 1, prompted = 0, console = []\<rparr>)"
    by (simp add: gateway_defs host_defs)
  have extracted: "extract_message ?e = Inr (JStr ''connection reset'')"
    by (simp add: extract_message_def)
  have converts: "ToString (Number_toString (browser (Some (Inr ()))))
      (working_message (browser (Some (Inr ()))) ?e) = Some ''connection reset''"
    by (simp add: gateway_defs host_defs)
  have retried: "runWithAuthRetry (browser (Some (Inr ())))
     (scripted [Inl (api_error ''404 NOT_FOUND''), Inl (api_error ''404 NOT_FOUND'') :: failure + string])
     True fresh
   = Some (Inl (new_Error connection_failed),
       \<lparr>invoked = 2, prompted = 1, console = [ [Text prompt_warning] ]\<rparr>)"
    by (simp add: gateway_defs host_defs)
  from gateway_throws_new_error[OF run] gateway_throws_new_error[OF retried]
    run retried extracted converts
  show ?thesis by (simp add: new_Error_def)
qed

text \<open>
  Claim C10 as stated fails on three paths. Where the credential prompt is rejected, the
  working message is \<open>403 Forbidden\<close> and the thrown \<open>Error\<close> carries the fixed message
  instead. Where the nested message is an object with an own member \<open>toString\<close> and no
  retry is started, \<open>new Error(msg)\<close> cannot convert it and a TypeError is thrown. Where
  \<open>JSON.stringify\<close> throws on the caught object (here an object holding a BigInt), what
  it throws leaves the gateway and no message has been extracted.
\<close>

theorem thrown_message_not_working_message:
  "working_message (browser (Some (Inl (Primitive ''dismissed'')))) (api_error ''403 Forbidden'')
     = JStr ''403 Forbidden''
   \<and> runWithAuthRetry (browser (Some (Inl (Primitive ''dismissed''))))
       (scripted [Inl (api_error ''403 Forbidden'') :: failure + string]) True fresh
     = Some (Inl (new_Error connection_failed),
         \<lparr>invoked = 1, prompted = 1, console = [ [Text prompt_warning] ]\<rparr>)
   \<and> extract_message (new_Error connection_failed) \<noteq> Inr (JStr ''403 Forbidden'')
   \<and> working_message (browser None)
       (api_error ''{\"error\":{\"code\":400,\"message\":{\"toString\":\"x\"}}}'')
     = JObj [(''toString'', JStr ''x'')]
   \<and> runWithAuthRetry (browser None)
       (scripted [Inl (api_error ''{\"error\":{\"code\":400,\"message\":{\"toString\":\"x\"}}}'')
                    :: failure + string]) True fresh
     = Some (Inl (ErrorObject \<lparr>name = ''TypeError'',
                    message = ''Cannot convert object to primitive value'', details = []\<rparr>),
         \<lparr>invoked = 1, prompted = 0, console = []\<rparr>)
   \<and> runWithAuthRetry (browser None)
       (scripted [Inl (ThrowingObject
            (ErrorObject \<lparr>name = ''TypeError'',
               message = ''Do not know how to serialize a BigInt'', details = []\<rparr>))
                    :: failure + string]) True fresh
     = Some (Inl (ErrorObject \<lparr>name = ''TypeError'',
                    message = ''Do not know how to serialize a BigInt'', details = []\<rparr>),
         \<lparr>invoked = 1, prompted = 0, console = []\<rparr>)"
  by (simp add: gateway_defs host_defs new_Error_def connection_failed_def
        substring_def reader_defs nullish_def descriptor_matches_def)

section \<open>Claims about the classification\<close>

text \<open>
  Claim C2, as the code has it. A failure whose working message (the extracted message,
  or the nested error message that replaced it in step 2) is a string containing
  \<open>quota\<close> is classified retryable, whether or not the message embeds a JSON error
  descriptor.
\<close>

theorem working_message_quota_retryable:
  assumes "working_message P error = JStr m" and "includes_str m ''quota''"
  shows "retryable P error"
proof -
  have "''quota'' \<in> set fallback_patterns"
    by (simp add: fallback_patterns_def)
  with assms(2) have "any_includes (JStr m) fallback_patterns = Some True"
    unfolding any_includes_JStr by blast
  with assms show ?thesis
    by (cases error)
       (auto simp: retryable_def working_message_def classify_def extract_message_def
          json_step_def split: prod.splits)
qed

theorem working_message_quota_retryable_witness:
  "working_message (browser None)
     (api_error ''429 {\"error\":{\"code\":429,\"status\":\"RESOURCE_EXHAUSTED\",\"message\":\"You exceeded your current quota\"}}'')
     = JStr ''You exceeded your current quota''
   \<and> includes_str ''You exceeded your current quota'' ''quota''
   \<and> retryable (browser None)
     (api_error ''429 {\"error\":{\"code\":429,\"status\":\"RESOURCE_EXHAUSTED\",\"message\":\"You exceeded your current quota\"}}'')"
proof -
  have w: "working_message (browser None)
     (api_error ''429 {\"error\":{\"code\":429,\"status\":\"RESOURCE_EXHAUSTED\",\"message\":\"You exceeded your current quota\"}}'')
     = JStr ''You exceeded your current quota''"
    by (simp add: substring_def reader_defs nullish_def working_message_def json_step_def
          parse_json_message_def extract_message_def descriptor_matches_def host_defs)
  have q: "includes_str ''You exceeded your current quota'' ''quota''"
    by simp
  from working_message_quota_retryable[OF w q] w q show ?thesis by simp
qed

text \<open>
  Claim C2 as stated fails: the extracted message below contains \<open>quota\<close>, the nested
  message \<open>internal\<close> replaces it, and the failure is not retryable; the gateway fails
  with \<open>internal\<close> and shows no prompt although the collaborator is available.
\<close>

theorem quota_hidden_by_nested_message:
  "extract_message (api_error ''quota check: {\"error\":{\"code\":500,\"message\":\"internal\"}}'')
     = Inr (JStr ''quota check: {\"error\":{\"code\":500,\"message\":\"internal\"}}'')
   \<and> includes_str ''quota check: {\"error\":{\"code\":500,\"message\":\"internal\"}}'' ''quota''
   \<and> \<not> retryable (browser (Some (Inr ())))
       (api_error ''quota check: {\"error\":{\"code\":500,\"message\":\"internal\"}}'')
   \<and> runWithAuthRetry (browser (Some (Inr ())))
       (scripted [Inl (api_error ''quota check: {\"error\":{\"code\":500,\"message\":\"internal\"}}''),
                  Inr ''image''])
       True fresh
     = Some (Inl (new_Error ''internal''), \<lparr>invoked = 1, prompted = 0, console = []\<rparr>)"
  by (simp add: substring_def reader_defs nullish_def gateway_defs host_defs descriptor_matches_def
        new_Error_def)

text \<open>
  Claim C3, as the code has it. Let the extracted message embed a parseable JSON fragment
  (from the first \<open>{\<close> to the last \<open>}\<close>) with a nested error descriptor, whatever its
  members are. The failure is retryable exactly when the descriptor is in the table (code
  403, status \<open>PERMISSION_DENIED\<close>, code 404, status \<open>NOT_FOUND\<close>, code 400, nested message
  containing \<open>quota\<close>) or the working message matches one of the ten fallback patterns. A
  nested message that is a non-empty string becomes the working message; when it is the
  empty string, the extracted message stays.
\<close>

theorem embedded_descriptor_classification:
  assumes "extract_message error = Inr (JStr msg)"
    and "embedded_error (JSON_parse P) msg = Some err"
  shows "(retryable P error \<longleftrightarrow>
            in_table err \<or> any_includes (working_message P error) fallback_patterns = Some True)
       \<and> (\<forall>t. getprop err ''message'' = JStr t \<longrightarrow>
            working_message P error = JStr (if t \<noteq> [] then t else msg))"
proof -
  have quota: "''quota'' \<in> set fallback_patterns"
    by (simp add: fallback_patterns_def)
  have step: "parse_json_message (JSON_parse P) msg =
      (case descriptor_matches err of
         None \<Rightarrow> (False, JStr msg)
       | Some b \<Rightarrow>
           (b, if truthy (getprop err ''message'') then getprop err ''message'' else JStr msg))"
    using assms(2) by (simp add: parse_json_message_embedded)
  have replaced: "working_message P error = JStr (if t \<noteq> [] then t else msg)"
    if "getprop err ''message'' = JStr t" for t
    using that assms(1) step
    by (simp add: working_message_def json_step_def descriptor_matches_def)
  have classified: "retryable P error \<longleftrightarrow>
      in_table err \<or> any_includes (working_message P error) fallback_patterns = Some True"
  proof (cases "descriptor_matches err")
    case None
    then have "\<not> in_table err"
      by (auto simp: descriptor_matches_def in_table_def split: if_splits jsval.splits
            elim: includes_val.elims)
    with None assms(1) step show ?thesis
      by (auto simp: retryable_def working_message_def classify_def json_step_def
            split: option.splits)
  next
    case (Some b)
    show ?thesis
    proof (cases b)
      case False
      with Some have "\<not> in_table err"
        by (auto simp: descriptor_matches_def in_table_def split: if_splits jsval.splits)
      with Some False assms(1) step show ?thesis
        by (auto simp: retryable_def working_message_def classify_def json_step_def
              split: option.splits)
    next
      case True
      with Some assms(1) step have yes: "retryable P error"
        by (simp add: retryable_def classify_def json_step_def)
      have "in_table err
          \<or> any_includes (working_message P error) fallback_patterns = Some True"
      proof (cases "\<exists>xs. getprop err ''message'' = JArr xs")
        case True
        then obtain xs where xs: "getprop err ''message'' = JArr xs" by blast
        show ?thesis
        proof (cases "in_table err")
          case False
          with Some \<open>b\<close> xs have "JStr ''quota'' \<in> set xs"
            by (auto simp: descriptor_matches_def in_table_def split: if_splits)
          with quota xs Some \<open>b\<close> assms(1) step show ?thesis
            by (auto simp: working_message_def json_step_def any_includes_JArr)
        qed simp
      next
        case False
        with Some \<open>b\<close> have "in_table err"
          by (auto simp: descriptor_matches_def in_table_def split: if_splits jsval.splits
                elim: includes_val.elims)
        then show ?thesis by simp
      qed
      with yes show ?thesis by simp
    qed
  qed
  from classified replaced show ?thesis by blast
qed

text \<open>
  The example of the claim: the descriptor with code 403 is retryable and the working
  message becomes \<open>no access\<close>. A descriptor outside the table is retryable through the
  fallback patterns.
\<close>

theorem embedded_descriptor_classification_witness:
  "retryable (browser None)
     (api_error ''Request failed: {\"error\":{\"code\":403,\"status\":\"PERMISSION_DENIED\",\"message\":\"no access\"}}'')
   \<and> working_message (browser None)
     (api_error ''Request failed: {\"error\":{\"code\":403,\"status\":\"PERMISSION_DENIED\",\"message\":\"no access\"}}'')
     = JStr ''no access''
   \<and> retryable (browser None) (api_error ''HTTP 403: {\"error\":{\"code\":500}}'')"
proof -
  let ?m = "''Request failed: {\"error\":{\"code\":403,\"status\":\"PERMISSION_DENIED\",\"message\":\"no access\"}}''"
  let ?err = "JObj [(''code'', JNum 403), (''status'', JStr ''PERMISSION_DENIED''),
                    (''message'', JStr ''no access'')]"
  have extracted: "extract_message (api_error ?m) = Inr (JStr ?m)"
    by (simp add: api_error_def extract_message_def)
  have found: "embedded_error (JSON_parse (browser None)) ?m = Some ?err"
    by (simp add: embedded_error_def substring_def reader_defs nullish_def browser_def)
  have table: "in_table ?err"
    by (simp add: in_table_def)
  have nested: "getprop ?err ''message'' = JStr ''no access''"
    by simp
  from embedded_descriptor_classification[OF extracted found] table nested
  have first: "retryable (browser None) (api_error ?m)
      \<and> working_message (browser None) (api_error ?m) = JStr ''no access''"
    by simp
  let ?m' = "''HTTP 403: {\"error\":{\"code\":500}}''"
  have extracted': "extract_message (api_error ?m') = Inr (JStr ?m')"
    by (simp add: api_error_def extract_message_def)
  have found': "embedded_error (JSON_parse (browser None)) ?m' = Some (JObj [(''code'', JNum 500)])"
    by (simp add: embedded_error_def substring_def reader_defs nullish_def browser_def)
  have stays: "working_message (browser None) (api_error ?m') = JStr ?m'"
    by (simp add: substring_def reader_defs nullish_def working_message_def json_step_def
          parse_json_message_def extract_message_def descriptor_matches_def host_defs)
  have "''403'' \<in> set fallback_patterns" "includes_str ?m' ''403''"
    by (simp_all add: fallback_patterns_def)
  then have pattern: "any_includes (JStr ?m') fallback_patterns = Some True"
    unfolding any_includes_JStr by blast
  from embedded_descriptor_classification[OF extracted' found'] stays pattern
  have second: "retryable (browser None) (api_error ?m')"
    by simp
  from first second show ?thesis by simp
qed

text \<open>
  Claim C3 as stated fails twice. A descriptor outside the table (code 401, status
  \<open>UNAUTHENTICATED\<close>) is retryable all the same, because its nested message contains the
  fallback pattern \<open>API key not valid\<close>; and a nested message that is the empty string
  does not replace the working message.
\<close>

theorem descriptor_outside_table_retryable:
  "embedded_error read_json
     ''{\"error\":{\"code\":401,\"status\":\"UNAUTHENTICATED\",\"message\":\"API key not valid\"}}''
     = Some (JObj [(''code'', JNum 401), (''status'', JStr ''UNAUTHENTICATED''),
                   (''message'', JStr ''API key not valid'')])
   \<and> \<not> in_table (JObj [(''code'', JNum 401), (''status'', JStr ''UNAUTHENTICATED''),
                   (''message'', JStr ''API key not valid'')])
   \<and> retryable (browser None)
       (api_error ''{\"error\":{\"code\":401,\"status\":\"UNAUTHENTICATED\",\"message\":\"API key not valid\"}}'')
   \<and> embedded_error read_json ''{\"error\":{\"code\":403,\"message\":\"\"}}''
     = Some (JObj [(''code'', JNum 403), (''message'', JStr [])])
   \<and> working_message (browser None) (api_error ''{\"error\":{\"code\":403,\"message\":\"\"}}'')
     = JStr ''{\"error\":{\"code\":403,\"message\":\"\"}}''"
  by (simp add: embedded_error_def substring_def reader_defs nullish_def in_table_def
        gateway_defs host_defs descriptor_matches_def)

section \<open>Claims about the image and video operations\<close>

lemmas image_defs =
  image_attempt_def getClient_def client_def flash_only_def pro_rejecting_def pro_request_def flash_request_def
  settle_def extractImageFromResponse_def extract_edited_def extract_image_def
  response_parts_def image_response_def inline_payload_def

lemma scan_parts_none:
  "\<forall>q \<in> set ps. inline_payload q = None \<Longrightarrow> scan_parts ps acc = Inl (acc @ refusal_text ps)"
  by (induction ps arbitrary: acc) (auto simp: refusal_text_def split: option.splits)

lemma scan_parts_first:
  "\<forall>q \<in> set before. inline_payload q = None \<Longrightarrow> inline_payload p = Some d \<Longrightarrow>
     scan_parts (before @ p # rest) acc = Inr (''data:image/png;base64,'' @ d)"
  by (induction before arbitrary: acc) auto

lemma inline_payload_Some:
  "inline_payload p = Some d \<longleftrightarrow> (\<exists>i. inlineData p = Some i \<and> data i = Some d \<and> d \<noteq> [])"
  by (auto simp: inline_payload_def split: option.splits)


text \<open>
  Claim C9. Payload extraction scans the content segments in order. The first segment that
  carries inline binary data (an \<open>inlineData\<close> with non-empty \<open>data\<close>) is returned as the
  text \<open>data:image/png;base64,\<close> followed by that data unchanged, so that what follows the
  prefix is the source payload; text segments before it do not matter. If the response
  has no parts or no segment carries data, the operation fails: with the accumulated text
  of the segments after the prefix \<open>Model refused: \<close> (\<open>Model unable to edit: \<close> in
  \<open>editImage\<close>) when that text is non-empty, and otherwise with \<open>No image data returned.\<close>
  (\<open>No edited image returned.\<close>).
\<close>

theorem payload_extraction:
  "(response_parts response = Some (before @ p # rest)
      \<and> (\<forall>q \<in> set before. inline_payload q = None)
      \<and> inlineData p = Some i \<and> data i = Some d \<and> d \<noteq> [] \<longrightarrow>
        extractImageFromResponse response = Inr (''data:image/png;base64,'' @ d)
      \<and> extract_edited response = Inr (''data:image/png;base64,'' @ d)
      \<and> drop (length ''data:image/png;base64,'') (''data:image/png;base64,'' @ d) = d)
   \<and> ((response_parts response = None \<and> ps = []
        \<or> response_parts response = Some ps \<and> (\<forall>q \<in> set ps. inline_payload q = None)) \<longrightarrow>
        extractImageFromResponse response =
          Inl (new_Error (if refusal_text ps \<noteq> [] then ''Model refused: '' @ refusal_text ps
                          else ''No image data returned.''))
      \<and> extract_edited response =
          Inl (new_Error (if refusal_text ps \<noteq> [] then ''Model unable to edit: '' @ refusal_text ps
                          else ''No edited image returned.'')))"
proof (intro conjI impI)
  assume h: "response_parts response = Some (before @ p # rest)
      \<and> (\<forall>q \<in> set before. inline_payload q = None)
      \<and> inlineData p = Some i \<and> data i = Some d \<and> d \<noteq> []"
  then have "inline_payload p = Some d" by (auto simp: inline_payload_Some)
  with h have scan: "scan_parts (before @ p # rest) [] = Inr (''data:image/png;base64,'' @ d)"
    by (simp add: scan_parts_first)
  with h show "extractImageFromResponse response = Inr (''data:image/png;base64,'' @ d)"
    by (simp add: extractImageFromResponse_def extract_image_def)
  from scan h show "extract_edited response = Inr (''data:image/png;base64,'' @ d)"
    by (simp add: extract_edited_def extract_image_def)
  show "drop (length ''data:image/png;base64,'') (''data:image/png;base64,'' @ d) = d"
    by simp
next
  assume h: "response_parts response = None \<and> ps = []
        \<or> response_parts response = Some ps \<and> (\<forall>q \<in> set ps. inline_payload q = None)"
  then have scan: "(case response_parts response of Some parts \<Rightarrow> scan_parts parts [] | None \<Rightarrow> Inl [])
      = Inl (refusal_text ps)"
    by (auto simp: scan_parts_none refusal_text_def)
  then show "extractImageFromResponse response =
          Inl (new_Error (if refusal_text ps \<noteq> [] then ''Model refused: '' @ refusal_text ps
                          else ''No image data returned.''))"
    by (simp add: extractImageFromResponse_def extract_image_def)
  from scan show "extract_edited response =
          Inl (new_Error (if refusal_text ps \<noteq> [] then ''Model unable to edit: '' @ refusal_text ps
                          else ''No edited image returned.''))"
    by (simp add: extract_edited_def extract_image_def)
qed

theorem payload_extraction_witness:
  "extractImageFromResponse (image_response ''iVBORw0KGgo='') = Inr ''data:image/png;base64,iVBORw0KGgo=''
   \<and> extract_edited (image_response ''iVBORw0KGgo='') = Inr ''data:image/png;base64,iVBORw0KGgo=''
   \<and> extractImageFromResponse
        \<lparr>candidates = Some [\<lparr>content_parts = Some (Some
            [\<lparr>inlineData = None, part_text = Some ''I cannot ''\<rparr>,
             \<lparr>inlineData = None, part_text = Some ''draw that.''\<rparr>])\<rparr>]\<rparr>
       = Inl (new_Error ''Model refused: I cannot draw that.'')
   \<and> extract_edited \<lparr>candidates = None\<rparr> = Inl (new_Error ''No edited image returned.'')"
proof -
  let ?t = "\<lparr>inlineData = None, part_text = Some ''Here is your image.''\<rparr>"
  let ?i = "\<lparr>mimeType = Some ''image/jpeg'', data = Some ''iVBORw0KGgo=''\<rparr>"
  let ?p = "\<lparr>inlineData = Some ?i, part_text = None\<rparr>"
  let ?ps = "[\<lparr>inlineData = None, part_text = Some ''I cannot ''\<rparr>,
              \<lparr>inlineData = None, part_text = Some ''draw that.''\<rparr>]"
  let ?refusing = "\<lparr>candidates = Some [\<lparr>content_parts = Some (Some ?ps)\<rparr>]\<rparr>"
  have found: "response_parts (image_response ''iVBORw0KGgo='') = Some ([?t] @ ?p # [])
      \<and> (\<forall>q \<in> set [?t]. inline_payload q = None)
      \<and> inlineData ?p = Some ?i \<and> data ?i = Some ''iVBORw0KGgo='' \<and> ''iVBORw0KGgo='' \<noteq> []"
    by (simp add: response_parts_def image_response_def inline_payload_def)
  have refused: "response_parts ?refusing = None \<and> ?ps = []
        \<or> response_parts ?refusing = Some ?ps \<and> (\<forall>q \<in> set ?ps. inline_payload q = None)"
    by (simp add: response_parts_def inline_payload_def)
  have missing: "response_parts \<lparr>candidates = None\<rparr> = None \<and> ([] :: part list) = []
        \<or> response_parts \<lparr>candidates = None\<rparr> = Some []
           \<and> (\<forall>q \<in> set ([] :: part list). inline_payload q = None)"
    by (simp add: response_parts_def)
  from payload_extraction[of "image_response ''iVBORw0KGgo=''" "[?t]" ?p "[]" ?i "''iVBORw0KGgo=''" "[]"] found
  have a: "extractImageFromResponse (image_response ''iVBORw0KGgo='') = Inr ''data:image/png;base64,iVBORw0KGgo=''
      \<and> extract_edited (image_response ''iVBORw0KGgo='') = Inr ''data:image/png;base64,iVBORw0KGgo=''"
    by simp
  from payload_extraction[of ?refusing "[]" ?p "[]" ?i "[]" ?ps] refused
  have b: "extractImageFromResponse ?refusing = Inl (new_Error ''Model refused: I cannot draw that.'')"
    by (simp add: refusal_text_def)
  from payload_extraction[of "\<lparr>candidates = None\<rparr>" "[]" ?p "[]" ?i "[]" "[]"] missing
  have c: "extract_edited \<lparr>candidates = None\<rparr> = Inl (new_Error ''No edited image returned.'')"
    by (auto simp: refusal_text_def)
  from a b c show ?thesis by simp
qed

lemma image_attempt_fails:
  "image_attempt P G request s = Some (Inl err, s1) \<longleftrightarrow>
     generateContent (getClient P G) request s = Some (Inl err, s1)
     \<or> (\<exists>response. generateContent (getClient P G) request s = Some (Inr response, s1)
           \<and> extractImageFromResponse response = Inl err)"
  by (auto simp: image_attempt_def await_def settle_def split: option.splits sum.splits prod.splits)

lemma getClient_counting:
  "getClient (probed P) (counting_client G) =
     \<lparr>generateContent = (\<lambda>request. counted (generateContent (getClient P G) request))\<rparr>"
  by (simp add: getClient_def counting_client_def probed_def)

lemma image_attempt_counting:
  "image_attempt (probed P) (counting_client G) request =
     counted (image_attempt P G request)"
  by (rule ext)
     (auto simp: image_attempt_def getClient_counting await_def counted_def settle_def
           split: option.splits sum.splits prod.splits)


text \<open>
  The tier-1 attempt of \<open>generateImage\<close> runs outside the gateway. When it fails with any
  value other than \<open>null\<close> and \<open>undefined\<close>, by a rejected backend call or by a failed
  payload extraction, the failure is only logged, and the call continues as
  \<open>runWithAuthRetry\<close> of the tier-2 attempt with \<open>requireAuthPrompt = true\<close>, from the state
  tier 1 left: one backend call and no credential prompt so far. In particular, when the
  tier-2 attempt succeeds, so does the whole call.
\<close>

lemma logged_failure_falls_back:
  assumes "image_attempt P G (pro_request prompt ratio res) s = Some (Inl err, s1)"
    and "err \<noteq> Null" and "err \<noteq> Undefined"
  shows "generateImage P G prompt ratio res s =
           runWithAuthRetry P (image_attempt P G (flash_request prompt)) True
             (console_warn P [Text pro_failed, MessageOf err] s1)
       \<and> (\<forall>uri s2. image_attempt P G (flash_request prompt)
                      (console_warn P [Text pro_failed, MessageOf err] s1) = Some (Inr uri, s2) \<longrightarrow>
             generateImage P G prompt ratio res s = Some (Inr uri, s2))
       \<and> generateImage (probed P) (counting_client G) prompt ratio res (probe0 s) =
           runWithAuthRetry (probed P) (counted (image_attempt P G (flash_request prompt))) True
             \<lparr>invocations = 1, prompts = 0,
              inner = console_warn P [Text pro_failed, MessageOf err] s1\<rparr>"
proof (intro conjI allI impI)
  from assms(2,3) have readable: "read_message P err = None" "read_message (probed P) err = None"
    by (cases err; simp add: read_message_def)+
  from assms(1) readable show eq: "generateImage P G prompt ratio res s =
           runWithAuthRetry P (image_attempt P G (flash_request prompt)) True
             (console_warn P [Text pro_failed, MessageOf err] s1)"
    by (simp add: generateImage_def try_catch_def)
  {
    fix uri s2
    assume "image_attempt P G (flash_request prompt)
              (console_warn P [Text pro_failed, MessageOf err] s1) = Some (Inr uri, s2)"
    with eq show "generateImage P G prompt ratio res s = Some (Inr uri, s2)"
      by (simp add: run_first_success)
  }
  from assms(1) have "counted (image_attempt P G (pro_request prompt ratio res)) (probe0 s)
      = Some (Inl err, \<lparr>invocations = 1, prompts = 0, inner = s1\<rparr>)"
    by (simp add: counted_def probe0_def)
  with readable show "generateImage (probed P) (counting_client G) prompt ratio res (probe0 s) =
           runWithAuthRetry (probed P) (counted (image_attempt P G (flash_request prompt))) True
             \<lparr>invocations = 1, prompts = 0,
              inner = console_warn P [Text pro_failed, MessageOf err] s1\<rparr>"
    by (simp add: generateImage_def image_attempt_counting try_catch_def)
qed

lemma logged_failure_falls_back_example:
  "generateImage (browser (Some (Inr ()))) (client flash_only) ''a cat'' SQUARE K1 fresh
   = Some (Inr ''data:image/png;base64,iVBORw0KGgo='',
       \<lparr>invoked = 2, prompted = 0,
        console = [ [Text pro_failed, MessageOf (api_error ''403 PERMISSION_DENIED'')] ]\<rparr>)"
proof -
  let ?B = "browser (Some (Inr ()))"
  let ?s1 = "\<lparr>invoked = 1, prompted = 0, console = []\<rparr>"
  have tier1: "image_attempt ?B (client flash_only) (pro_request ''a cat'' SQUARE K1) fresh
      = Some (Inl (api_error ''403 PERMISSION_DENIED''), ?s1)"
    by (simp add: image_defs await_def fresh_def)
  have tier2: "image_attempt ?B (client flash_only) (flash_request ''a cat'')
        (console_warn ?B [Text pro_failed, MessageOf (api_error ''403 PERMISSION_DENIED'')] ?s1)
      = Some (Inr ''data:image/png;base64,iVBORw0KGgo='',
          \<lparr>invoked = 2, prompted = 0,
           console = [ [Text pro_failed, MessageOf (api_error ''403 PERMISSION_DENIED'')] ]\<rparr>)"
    by (simp add: image_defs await_def browser_def)
  have object: "api_error ''403 PERMISSION_DENIED'' \<noteq> Null"
    "api_error ''403 PERMISSION_DENIED'' \<noteq> Undefined"
    by (simp_all add: api_error_def)
  from logged_failure_falls_back[OF tier1 object] tier2 show ?thesis by blast
qed

text \<open>
  Claim C7 says that on any tier-1 failure the tier-2 attempt is always made through
  \<open>runWithAuthRetry\<close>, so that a tier-1 failure never ends the call. The code does not do
  so when the tier-1 backend call rejects with \<open>undefined\<close> or \<open>null\<close>: the \<open>catch\<close> block
  reads \<open>err.message\<close> for its log line before it starts tier 2, the read throws a
  TypeError, and \<open>generateImage\<close> rejects with it after the one backend call of tier 1,
  with nothing logged and no credential prompt, although the tier-2 attempt would have
  returned an image from that state.
\<close>

theorem tier1_nullish_failure_ends_call:
  "image_attempt (browser (Some (Inr ()))) (client (pro_rejecting Undefined))
       (pro_request ''a cat'' SQUARE K1) fresh
     = Some (Inl Undefined, \<lparr>invoked = 1, prompted = 0, console = []\<rparr>)
   \<and> generateImage (browser (Some (Inr ()))) (client (pro_rejecting Undefined))
       ''a cat'' SQUARE K1 fresh
     = Some (Inl (ErrorObject \<lparr>name = ''TypeError'',
                    message = ''Cannot read properties of undefined (reading ''
                              @ [CHR 0x27] @ ''message'' @ [CHR 0x27] @ '')'',
                    details = []\<rparr>),
         \<lparr>invoked = 1, prompted = 0, console = []\<rparr>)
   \<and> generateImage (browser (Some (Inr ()))) (client (pro_rejecting Null))
       ''a cat'' SQUARE K1 fresh
     = Some (Inl (ErrorObject \<lparr>name = ''TypeError'',
                    message = ''Cannot read properties of null (reading ''
                              @ [CHR 0x27] @ ''message'' @ [CHR 0x27] @ '')'',
                    details = []\<rparr>),
         \<lparr>invoked = 1, prompted = 0, console = []\<rparr>)
   \<and> runWithAuthRetry (browser (Some (Inr ())))
       (image_attempt (browser (Some (Inr ()))) (client (pro_rejecting Undefined))
          (flash_request ''a cat''))
       True \<lparr>invoked = 1, prompted = 0, console = []\<rparr>
     = Some (Inr ''data:image/png;base64,iVBORw0KGgo='',
         \<lparr>invoked = 2, prompted = 0, console = []\<rparr>)"
  by (simp add: generateImage_def read_message_def image_defs gateway_defs host_defs)

text \<open>
  Claim C8. With the Pro mode flag unset, \<open>generateVideo\<close> is \<open>editImage\<close> of the reference
  image when one is supplied (a non-empty string), and \<open>generateImage\<close> otherwise; the
  result is that image result, and it does not depend on the video backend or on the
  download machinery, which are never invoked.
\<close>

theorem video_without_pro_mode:
  "generateVideo P G Veo W prompt aspect referenceImage False =
     (case supplied referenceImage of
        Some r \<Rightarrow> editImage P G r (or_else prompt ''Enhance this'') (mime_of r)
      | None \<Rightarrow>
          generateImage P G (or_else prompt ''Preview'')
            (if aspect = Wide_16_9 then WIDE_LANDSCAPE else WIDE_PORTRAIT) K1)
   \<and> generateVideo P G Veo W prompt aspect referenceImage False =
     generateVideo P G Veo' W' prompt aspect referenceImage False"
  by (simp add: generateVideo_def)

theorem video_without_pro_mode_witness:
  "generateVideo (browser None) (client flash_only) idle_veo idle_web ''a cat'' Wide_16_9 None False fresh
   = Some (Inr ''data:image/png;base64,iVBORw0KGgo='',
       \<lparr>invoked = 2, prompted = 0,
        console = [ [Text pro_failed, MessageOf (api_error ''403 PERMISSION_DENIED'')] ]\<rparr>)
   \<and> generateVideo (browser None) (client flash_only) idle_veo idle_web []  Tall_9_16
       (Some ''data:image/jpeg;base64,QUJD'') False fresh
   = Some (Inr ''data:image/png;base64,iVBORw0KGgo='', \<lparr>invoked = 1, prompted = 0, console = []\<rparr>)"
proof -
  have gen: "generateImage (browser None) (client flash_only) ''a cat'' WIDE_LANDSCAPE K1 fresh
   = Some (Inr ''data:image/png;base64,iVBORw0KGgo='',
       \<lparr>invoked = 2, prompted = 0,
        console = [ [Text pro_failed, MessageOf (api_error ''403 PERMISSION_DENIED'')] ]\<rparr>)"
    by (simp add: generateImage_def read_message_def image_defs gateway_defs host_defs)
  have edit: "editImage (browser None) (client flash_only) ''data:image/jpeg;base64,QUJD''
       ''Enhance this'' ''image/jpeg'' fresh
   = Some (Inr ''data:image/png;base64,iVBORw0KGgo='', \<lparr>invoked = 1, prompted = 0, console = []\<rparr>)"
    by (simp add: editImage_def image_defs gateway_defs host_defs)
  have mime: "mime_of ''data:image/jpeg;base64,QUJD'' = ''image/jpeg''"
    by (simp add: mime_of_def)
  from video_without_pro_mode[of "browser None" "client flash_only" idle_veo idle_web "''a cat''" Wide_16_9 None]
       video_without_pro_mode[of "browser None" "client flash_only" idle_veo idle_web "[]" Tall_9_16
             "Some ''data:image/jpeg;base64,QUJD''"]
       gen edit mime
  show ?thesis by (simp add: supplied_def or_else_def)
qed

section \<open>Pro mode\<close>

text \<open>
  Two facts about the Veo path: without a prompt and without a reference image it fails
  before any backend call, with the thunk's message passed on by the gateway; and the
  polling loop returns at once for a job that is done.
\<close>

lemma pro_mode_needs_prompt_or_image:
  "generateVideo P G Veo W [] aspect None True s =
     Some (Inl (new_Error ''Prompt or Image required for video generation''), s)"
proof -
  have job: "veo_job P Veo W [] aspect None s =
      Some (Inl (new_Error ''Prompt or Image required for video generation''), s)"
    by (simp add: veo_job_def supplied_def throw_def Let_def)
  have "classify P (new_Error ''Prompt or Image required for video generation'')
      = Inr (False, JStr ''Prompt or Image required for video generation'')"
    by (simp add: classify_def json_step_def parse_json_message_def extract_message_def
          new_Error_def fallback_patterns_def)
  then have "reported P (new_Error ''Prompt or Image required for video generation'')
      = new_Error ''Prompt or Image required for video generation''"
    and "\<not> retryable P (new_Error ''Prompt or Image required for video generation'')"
    by (simp_all add: reported_def construct_Error_def retryable_def)
  with run_final_throw[of "veo_job P Veo W [] aspect None" s, OF job] show ?thesis
    by (simp add: generateVideo_def)
qed

lemma poll_done: "is_done operation \<Longrightarrow> poll ai W operation s = Some (Inr operation, s)"
  by (simp add: poll.simps)

end
